theory Spec2Isabelle
  imports Complex_Main "HOL-Library.Word" "HOL-Library.Multiset"
begin

section \<open>Crossword grid: data model\<close>

text \<open>
  A JavaScript string is a sequence of UTF-16 code units; \<open>length\<close>, indexing,
  \<open>split('')\<close> and \<open>charCodeAt\<close> all work on code units. The words of this program
  are Ukrainian, so a string is modelled as the list of its code units.
  Word identifiers and direction names are ASCII and are kept as \<open>string\<close>.
\<close>

type_synonym ustring = "nat list"

text \<open>
  The cell object of \<open>GridHelper.createEmptyCell\<close>. The fields kept are the ones that the
  placement engine and the validators read or write; the presentation fields of the
  object (\<open>gameValue\<close>, \<open>userInput\<close>, \<open>isCorrect\<close>, \<open>highlighted\<close>, \<open>selected\<close>,
  \<open>metadata\<close>, and the copies of the coordinates) are touched by none of the functions below.
  \<open>number = None\<close> is JavaScript's \<open>null\<close>.
\<close>

record cell =
  letter :: ustring
  number :: "int option"
  blocked :: bool
  wordIds :: "string list"
  directions :: "string list"
  isStart :: bool
  isEnd :: bool
  isIntersection :: bool

type_synonym grid = "cell list list"

text \<open>The word object handed to \<open>placeWord\<close>, \<open>autoPlaceWords\<close> and the validators; \<open>wid\<close> is
  its \<open>id\<close>, \<open>wnumber\<close> its \<open>number\<close> (\<open>None\<close> for \<open>null\<close>), and \<open>difficulty = None\<close> stands for a
  missing difficulty.\<close>

record wordData =
  word :: ustring
  clue :: ustring
  direction :: string
  startRow :: int
  startCol :: int
  wid :: string
  wnumber :: "int option"
  difficulty :: "rat option"

datatype error = TypeError | RangeError

definition createEmptyCell :: cell where
  "createEmptyCell = \<lparr>letter = [], number = None, blocked = False, wordIds = [],
     directions = [], isStart = False, isEnd = False, isIntersection = False\<rparr>"

definition isValidSize :: "int \<Rightarrow> int \<Rightarrow> bool" where
  "isValidSize width height \<longleftrightarrow> width \<ge> 5 \<and> width \<le> 25 \<and> height \<ge> 5 \<and> height \<le> 25"

definition createEmptyGrid :: "int \<Rightarrow> int \<Rightarrow> grid option" where
  "createEmptyGrid width height =
     (if \<not> isValidSize width height then None
      else Some (replicate (nat height) (replicate (nat width) createEmptyCell)))"

text \<open>
  \<open>row >= 0 && row < grid.length && col >= 0 && col < grid[0].length\<close>: the conjunction
  is evaluated left to right, so \<open>grid[0]\<close> is read only when the grid has a row.
\<close>

definition isValidPosition :: "grid \<Rightarrow> int \<Rightarrow> int \<Rightarrow> bool" where
  "isValidPosition g row col \<longleftrightarrow>
     row \<ge> 0 \<and> row < int (length g) \<and> col \<ge> 0 \<and>
     (case g of [] \<Rightarrow> False | r0 # _ \<Rightarrow> col < int (length r0))"

text \<open>
  \<open>getCell\<close> returns \<open>null\<close> outside the grid and \<open>grid[row][col]\<close> inside; in a grid
  whose rows differ in length the latter can be \<open>undefined\<close>. Both are \<open>None\<close> here: the
  callers either test the result for falsity or read a property of it, which throws a
  TypeError for either value.
\<close>

definition getCell :: "grid \<Rightarrow> int \<Rightarrow> int \<Rightarrow> cell option" where
  "getCell g row col =
     (if \<not> isValidPosition g row col then None
      else if nat col < length (g ! nat row) then Some (g ! nat row ! nat col) else None)"

text \<open>Assignment to the fields of the cell object stored at \<open>grid[row][col]\<close>.\<close>

definition putCell :: "grid \<Rightarrow> int \<Rightarrow> int \<Rightarrow> cell \<Rightarrow> grid" where
  "putCell g row col c = g[nat row := (g ! nat row)[nat col := c]]"

definition hasWordsOnGrid :: "grid \<Rightarrow> bool" where
  "hasWordsOnGrid g = list_ex (list_ex (\<lambda>c. letter c \<noteq> [] \<and> length (wordIds c) > 0)) g"

section \<open>Placement engine\<close>

text \<open>
  The \<open>reason\<close> strings of \<open>canPlaceWord\<close> are Ukrainian messages; each message is one
  constructor, carrying the values interpolated into it.
\<close>

datatype reason =
    NoReason
  | TooShort
  | BadDirection
  | StartOutOfBounds
  | OutOfBounds nat
  | Blocked int int
  | FullDuplicate
  | LetterConflict nat
  | Isolated

text \<open>A conflict is (row, col, existing, required); an intersection is (row, col, letter).\<close>

record placeResult =
  canPlace :: bool
  conflicts :: "(int \<times> int \<times> ustring \<times> ustring) list"
  intersections :: "(int \<times> int \<times> ustring) list"
  reason :: reason

text \<open>How the \<open>for\<close> loop of \<open>canPlaceWord\<close> ends: by an exception, by a \<open>return\<close>
  from inside the loop, or by running to its end.\<close>

datatype scan = Throws error | Returned placeResult | Scanned placeResult

definition rowOf :: "string \<Rightarrow> int \<Rightarrow> nat \<Rightarrow> int" where
  "rowOf d sr i = (if d = ''vertical'' then sr + int i else sr)"

definition colOf :: "string \<Rightarrow> int \<Rightarrow> nat \<Rightarrow> int" where
  "colOf d sc i = (if d = ''horizontal'' then sc + int i else sc)"

fun scanWord :: "grid \<Rightarrow> ustring \<Rightarrow> int \<Rightarrow> int \<Rightarrow> string \<Rightarrow> nat list \<Rightarrow> placeResult \<Rightarrow> scan" where
  "scanWord g w sr sc d [] res = Scanned res"
| "scanWord g w sr sc d (i # is) res =
     (let row = rowOf d sr i; col = colOf d sc i in
      if \<not> isValidPosition g row col then Returned (res\<lparr>reason := OutOfBounds i\<rparr>)
      else case getCell g row col of
        None \<Rightarrow> Throws TypeError
      | Some c \<Rightarrow>
          if blocked c then Returned (res\<lparr>reason := Blocked row col\<rparr>)
          else
            let res1 = (if letter c \<noteq> [] \<and> letter c \<noteq> [w ! i]
                        then res\<lparr>conflicts := conflicts res @ [(row, col, letter c, [w ! i])]\<rparr>
                        else res);
                res2 = (if letter c \<noteq> [] \<and> letter c = [w ! i]
                        then res1\<lparr>intersections := intersections res1 @ [(row, col, [w ! i])]\<rparr>
                        else res1)
            in scanWord g w sr sc d is res2)"

definition canPlaceWord :: "grid \<Rightarrow> ustring \<Rightarrow> int \<Rightarrow> int \<Rightarrow> string \<Rightarrow> error + placeResult" where
  "canPlaceWord g w sr sc d =
     (let result = \<lparr>canPlace = False, conflicts = [], intersections = [], reason = NoReason\<rparr> in
      if length w < 2 then Inr (result\<lparr>reason := TooShort\<rparr>)
      else if d \<notin> set [''horizontal'', ''vertical''] then Inr (result\<lparr>reason := BadDirection\<rparr>)
      else if \<not> isValidPosition g sr sc then Inr (result\<lparr>reason := StartOutOfBounds\<rparr>)
      else case scanWord g w sr sc d [0..<length w] result of
        Throws e \<Rightarrow> Inl e
      | Returned r \<Rightarrow> Inr r
      | Scanned r \<Rightarrow>
          if length (intersections r) = length w then Inr (r\<lparr>reason := FullDuplicate\<rparr>)
          else if length (conflicts r) > 0
            then Inr (r\<lparr>reason := LetterConflict (length (conflicts r))\<rparr>)
          else if hasWordsOnGrid g \<and> length (intersections r) = 0
            then Inr (r\<lparr>reason := Isolated\<rparr>)
          else Inr (r\<lparr>canPlace := True\<rparr>))"

text \<open>The body of the placement loop of \<open>placeWord\<close> for offset \<open>i\<close>, on one cell.\<close>

definition placeCell :: "wordData \<Rightarrow> nat \<Rightarrow> cell \<Rightarrow> cell" where
  "placeCell wd i c =
     (let c1 = c\<lparr>letter := [word wd ! i]\<rparr>;
          c2 = (if wid wd \<notin> set (wordIds c1) then c1\<lparr>wordIds := wordIds c1 @ [wid wd]\<rparr> else c1);
          c3 = (if direction wd \<notin> set (directions c2)
                then c2\<lparr>directions := directions c2 @ [direction wd]\<rparr> else c2);
          c4 = (if length (wordIds c3) > 1 then c3\<lparr>isIntersection := True\<rparr> else c3);
          c5 = (if i = 0 then c4\<lparr>isStart := True, number := wnumber wd\<rparr> else c4);
          c6 = (if int i = int (length (word wd)) - 1 then c5\<lparr>isEnd := True\<rparr> else c5)
      in c6)"

text \<open>
  The grid is mutated in place, so a function that changes it returns the grid it leaves
  behind together with its result, also when it throws.
\<close>

fun placeLetters :: "wordData \<Rightarrow> nat list \<Rightarrow> grid \<Rightarrow> grid \<times> (error + bool)" where
  "placeLetters wd [] g = (g, Inr True)"
| "placeLetters wd (i # is) g =
     (let row = rowOf (direction wd) (startRow wd) i;
          col = colOf (direction wd) (startCol wd) i in
      case getCell g row col of
        None \<Rightarrow> (g, Inl TypeError)
      | Some c \<Rightarrow> placeLetters wd is (putCell g row col (placeCell wd i c)))"

definition placeWord :: "grid \<Rightarrow> wordData \<Rightarrow> grid \<times> (error + bool)" where
  "placeWord g wd =
     (case canPlaceWord g (word wd) (startRow wd) (startCol wd) (direction wd) of
        Inl e \<Rightarrow> (g, Inl e)
      | Inr res \<Rightarrow>
          if \<not> canPlace res then (g, Inr False)
          else placeLetters wd [0..<length (word wd)] g)"

text \<open>\<open>indexOf\<close> finds the first occurrence and \<open>splice\<close> removes that one.\<close>

definition removeCell :: "string \<Rightarrow> cell \<Rightarrow> cell" where
  "removeCell wordId c =
     (if wordId \<in> set (wordIds c) then
        (let c1 = c\<lparr>wordIds := remove1 wordId (wordIds c)\<rparr> in
         if length (wordIds c1) = 0
         then c1\<lparr>letter := [], number := None, directions := [],
                 isStart := False, isEnd := False, isIntersection := False\<rparr>
         else c1\<lparr>isIntersection := (length (wordIds c1) > 1)\<rparr>)
      else c)"

definition removeWord :: "grid \<Rightarrow> string \<Rightarrow> grid \<times> bool" where
  "removeWord g wordId =
     (map (map (removeCell wordId)) g,
      list_ex (list_ex (\<lambda>c. wordId \<in> set (wordIds c))) g)"

text \<open>
  \<open>findPossibleIntersections\<close>: every pair \<open>(i, j)\<close> with \<open>newWord[i] === existingWord.word[j]\<close>,
  in the order of the two nested loops, as (startRow, startCol, direction) of the new word.
\<close>

definition findPossibleIntersections :: "ustring \<Rightarrow> wordData \<Rightarrow> (int \<times> int \<times> string) list" where
  "findPossibleIntersections newWord existingWord =
     concat (map (\<lambda>i. concat (map (\<lambda>j.
        if newWord ! i = word existingWord ! j then
          [(if direction existingWord = ''horizontal''
            then (startRow existingWord - int i, startCol existingWord + int j, ''vertical'')
            else (startRow existingWord + int j, startCol existingWord - int i, ''horizontal''))]
        else []) [0..<length (word existingWord)])) [0..<length newWord])"

text \<open>The innermost loop of \<open>autoPlaceWords\<close>, over the candidate positions against one
  placed word. \<open>Some nw\<close> is the copy of the word that was committed.\<close>

fun tryIntersections :: "grid \<Rightarrow> wordData \<Rightarrow> (int \<times> int \<times> string) list \<Rightarrow> grid \<times> (error + wordData option)" where
  "tryIntersections g w [] = (g, Inr None)"
| "tryIntersections g w ((sr, sc, d) # rest) =
     (let newWordData = w\<lparr>startRow := sr, startCol := sc, direction := d\<rparr> in
      case canPlaceWord g (word w) sr sc d of
        Inl e \<Rightarrow> (g, Inl e)
      | Inr res \<Rightarrow>
          if canPlace res then
            (case placeWord g newWordData of
               (g', Inl e) \<Rightarrow> (g', Inl e)
             | (g', Inr ok) \<Rightarrow>
                 if ok then (g', Inr (Some newWordData)) else tryIntersections g' w rest)
          else tryIntersections g w rest)"

text \<open>The loop over the words placed so far; it stops as soon as the word is placed.\<close>

fun tryPlaced :: "grid \<Rightarrow> wordData \<Rightarrow> wordData list \<Rightarrow> grid \<times> (error + wordData option)" where
  "tryPlaced g w [] = (g, Inr None)"
| "tryPlaced g w (p # ps) =
     (case tryIntersections g w (findPossibleIntersections (word w) p) of
        (g', Inl e) \<Rightarrow> (g', Inl e)
      | (g', Inr (Some nw)) \<Rightarrow> (g', Inr (Some nw))
      | (g', Inr None) \<Rightarrow> tryPlaced g' w ps)"

text \<open>The loop \<open>for (let i = 1; i < sortedWords.length; i++)\<close>.\<close>

fun placeRest :: "grid \<Rightarrow> wordData list \<Rightarrow> wordData list \<Rightarrow> grid \<times> (error + wordData list)" where
  "placeRest g [] placedWords = (g, Inr placedWords)"
| "placeRest g (w # ws) placedWords =
     (case tryPlaced g w placedWords of
        (g', Inl e) \<Rightarrow> (g', Inl e)
      | (g', Inr None) \<Rightarrow> placeRest g' ws placedWords
      | (g', Inr (Some nw)) \<Rightarrow> placeRest g' ws (placedWords @ [nw]))"

text \<open>
  \<open>words.sort((a, b) => b.word.length - a.word.length)\<close> sorts the array it is called on and
  returns that same array; the sort is stable. The function therefore leaves two objects
  changed, the grid and the caller's array, and both are returned next to the result.
  The first word of the sorted array is the caller's own object, so the assignments to
  \<open>firstWord.startRow\<close>, \<open>startCol\<close> and \<open>direction\<close> show in the array as well; the later
  words are placed through copies. \<open>grid[0].length\<close> throws when the grid has no row.
\<close>

definition sortByLengthDesc :: "wordData list \<Rightarrow> wordData list" where
  "sortByLengthDesc ws = sort_key (\<lambda>w. - int (length (word w))) ws"

definition autoPlaceWords :: "grid \<Rightarrow> wordData list \<Rightarrow> (grid \<times> wordData list) \<times> (error + wordData list)" where
  "autoPlaceWords g ws =
     (let sortedWords = sortByLengthDesc ws in
      case sortedWords of
        [] \<Rightarrow> ((g, sortedWords), Inr [])
      | firstWord # rest \<Rightarrow>
          (case g of
             [] \<Rightarrow> ((g, sortedWords), Inl TypeError)
           | r0 # _ \<Rightarrow>
               let centerRow = int (length g) div 2;
                   centerCol = (int (length r0) - int (length (word firstWord))) div 2;
                   fw = firstWord\<lparr>startRow := centerRow, startCol := centerCol,
                                   direction := ''horizontal''\<rparr>
               in (case placeWord g fw of
                     (g', Inl e) \<Rightarrow> ((g', fw # rest), Inl e)
                   | (g', Inr ok) \<Rightarrow>
                       (case placeRest g' rest (if ok then [fw] else []) of
                          (g'', r) \<Rightarrow> ((g'', fw # rest), r)))))"

section \<open>Predicates and examples used in the statements\<close>

text \<open>The checks of \<open>canPlaceWord\<close> that come before the isolation check each leave
  their own reason in the result.\<close>

fun rejectedEarlier :: "reason \<Rightarrow> bool" where
  "rejectedEarlier TooShort = True"
| "rejectedEarlier BadDirection = True"
| "rejectedEarlier StartOutOfBounds = True"
| "rejectedEarlier (OutOfBounds i) = True"
| "rejectedEarlier (Blocked r c) = True"
| "rejectedEarlier FullDuplicate = True"
| "rejectedEarlier (LetterConflict n) = True"
| "rejectedEarlier NoReason = False"
| "rejectedEarlier Isolated = False"


text \<open>
  The state of a cell as \<open>createEmptyCell\<close>, \<open>placeWord\<close> and \<open>removeWord\<close> leave it: a
  cell that no word passes through is empty (only \<open>blocked\<close> is free), and a cell with
  words carries a letter and the flag \<open>isIntersection\<close> of its number of words.
\<close>

definition cellConsistent :: "cell \<Rightarrow> bool" where
  "cellConsistent c \<longleftrightarrow>
     (if wordIds c = []
      then letter c = [] \<and> number c = None \<and> directions c = [] \<and>
           \<not> isStart c \<and> \<not> isEnd c \<and> \<not> isIntersection c
      else letter c \<noteq> [] \<and> isIntersection c = (length (wordIds c) > 1))"

definition gridConsistent :: "grid \<Rightarrow> bool" where
  "gridConsistent g = list_all (list_all cellConsistent) g"

definition idUnused :: "string \<Rightarrow> grid \<Rightarrow> bool" where
  "idUnused wordId g = list_all (list_all (\<lambda>c. wordId \<notin> set (wordIds c))) g"


text \<open>Every row has the length of the first row.\<close>

definition rectangular :: "grid \<Rightarrow> bool" where
  "rectangular g = list_all (\<lambda>row. length row = length (hd g)) g"

text \<open>A 5 by 5 grid and the words CAT (across), CAR (down from the same cell) and DOG.\<close>

definition emptyGrid5 :: grid where
  "emptyGrid5 = replicate 5 (replicate 5 createEmptyCell)"

definition catWord :: wordData where
  "catWord = \<lparr>word = [67, 65, 84], clue = [], direction = ''horizontal'',
     startRow = 2, startCol = 2, wid = ''cat'', wnumber = Some 1, difficulty = None\<rparr>"

definition carWord :: wordData where
  "carWord = \<lparr>word = [67, 65, 82], clue = [], direction = ''vertical'',
     startRow = 2, startCol = 2, wid = ''car'', wnumber = Some 2, difficulty = None\<rparr>"

definition catGrid :: grid where
  "catGrid = fst (placeWord emptyGrid5 catWord)"


definition dogWord :: wordData where
  "dogWord = \<lparr>word = [68, 79, 71], clue = [], direction = ''horizontal'',
     startRow = 0, startCol = 0, wid = ''dog'', wnumber = Some 3, difficulty = None\<rparr>"

section \<open>JavaScript numbers\<close>

text \<open>
  The scores and ratios of the validators are JavaScript numbers. A finite number is
  modelled by a rational (the rounding of the binary floating-point format is not
  modelled); the values that division by zero produces are kept, since comparisons,
  \<open>Math.min\<close>, \<open>Math.max\<close> and \<open>Math.round\<close> treat them specially.
\<close>

datatype jsnum = Num rat | PosInf | NegInf | NaN

text \<open>\<open>a / b\<close> for finite \<open>a\<close>, \<open>b\<close> (the divisors of this program are never \<open>-0\<close>).\<close>

definition jsDiv :: "rat \<Rightarrow> rat \<Rightarrow> jsnum" where
  "jsDiv a b = (if b \<noteq> 0 then Num (a / b)
                else if a > 0 then PosInf else if a < 0 then NegInf else NaN)"

fun jsAdd :: "jsnum \<Rightarrow> jsnum \<Rightarrow> jsnum" where
  "jsAdd (Num a) (Num b) = Num (a + b)"
| "jsAdd NaN _ = NaN"
| "jsAdd _ NaN = NaN"
| "jsAdd PosInf NegInf = NaN"
| "jsAdd NegInf PosInf = NaN"
| "jsAdd PosInf _ = PosInf"
| "jsAdd _ PosInf = PosInf"
| "jsAdd NegInf _ = NegInf"
| "jsAdd _ NegInf = NegInf"

fun jsNeg :: "jsnum \<Rightarrow> jsnum" where
  "jsNeg (Num a) = Num (- a)"
| "jsNeg PosInf = NegInf"
| "jsNeg NegInf = PosInf"
| "jsNeg NaN = NaN"

definition jsSub :: "jsnum \<Rightarrow> jsnum \<Rightarrow> jsnum" where
  "jsSub a b = jsAdd a (jsNeg b)"

text \<open>Multiplication by a finite factor, the only kind the program performs.\<close>

fun jsScale :: "jsnum \<Rightarrow> rat \<Rightarrow> jsnum" where
  "jsScale (Num a) k = Num (a * k)"
| "jsScale NaN k = NaN"
| "jsScale PosInf k = (if k > 0 then PosInf else if k < 0 then NegInf else NaN)"
| "jsScale NegInf k = (if k > 0 then NegInf else if k < 0 then PosInf else NaN)"

text \<open>\<open>a > k\<close> and \<open>a < k\<close> against a finite number; every comparison with \<open>NaN\<close> is false.\<close>

fun jsGt :: "jsnum \<Rightarrow> rat \<Rightarrow> bool" where
  "jsGt (Num a) k = (a > k)"
| "jsGt PosInf k = True"
| "jsGt NegInf k = False"
| "jsGt NaN k = False"

fun jsLt :: "jsnum \<Rightarrow> rat \<Rightarrow> bool" where
  "jsLt (Num a) k = (a < k)"
| "jsLt PosInf k = False"
| "jsLt NegInf k = True"
| "jsLt NaN k = False"

text \<open>\<open>Math.round\<close> rounds half up; \<open>Math.min\<close> and \<open>Math.max\<close> with a finite bound
  return \<open>NaN\<close> for \<open>NaN\<close>.\<close>

definition roundHalfUp :: "rat \<Rightarrow> int" where
  "roundHalfUp x = \<lfloor>x + 1 / 2\<rfloor>"

fun jsRound :: "jsnum \<Rightarrow> jsnum" where
  "jsRound (Num a) = Num (of_int (roundHalfUp a))"
| "jsRound x = x"

fun jsMin :: "jsnum \<Rightarrow> rat \<Rightarrow> jsnum" where
  "jsMin (Num a) k = Num (min a k)"
| "jsMin PosInf k = Num k"
| "jsMin NegInf k = NegInf"
| "jsMin NaN k = NaN"

fun jsMax :: "jsnum \<Rightarrow> rat \<Rightarrow> jsnum" where
  "jsMax (Num a) k = Num (max a k)"
| "jsMax PosInf k = PosInf"
| "jsMax NegInf k = Num k"
| "jsMax NaN k = NaN"

text \<open>\<open>x || 0\<close> for a number: \<open>NaN\<close> and \<open>0\<close> are falsy.\<close>

fun orZero :: "jsnum \<Rightarrow> jsnum" where
  "orZero NaN = Num 0"
| "orZero x = x"

section \<open>Word difficulty (WordHelper)\<close>

text \<open>The code units of the list \<open>rareLetters\<close> of the source: the Cyrillic letters U+0407, U+0404,
  U+0490 and U+042C, and the Latin letters X, Z and Q.\<close>

definition rareLetters :: "nat list" where
  "rareLetters = [1031, 1028, 1168, 1068, 88, 90, 81]"

text \<open>The character class of the cluster pattern: 21 Cyrillic consonants, U+0411 to U+0429
  without U+0415, U+0418, U+041E and U+0423.\<close>

definition clusterConsonants :: "nat list" where
  "clusterConsonants = [1041, 1042, 1043, 1044, 1046, 1047, 1049, 1050, 1051, 1052, 1053,
     1055, 1056, 1057, 1058, 1060, 1061, 1062, 1063, 1064, 1065]"

text \<open>The four two-letter strings of \<open>rareCombinations\<close>, each ending or starting with U+042F.\<close>

definition rareCombinations :: "ustring list" where
  "rareCombinations = [[1071, 1028], [1070, 1071], [1065, 1071], [1068, 1071]]"

text \<open>\<open>word.split('').filter(char => rareLetters.includes(char)).length\<close>\<close>

definition rareCount :: "ustring \<Rightarrow> nat" where
  "rareCount w = length (filter (\<lambda>ch. ch \<in> set rareLetters) w)"

text \<open>
  \<open>word.match(/[...]{3,}/g)\<close>: the quantifier is greedy and the matches do not overlap,
  so the matches are the maximal runs of at least three class characters. \<open>run\<close> is the
  length of the run that ends just before the rest of the string.
\<close>

fun countClusters :: "nat \<Rightarrow> ustring \<Rightarrow> nat" where
  "countClusters run [] = (if run \<ge> 3 then 1 else 0)"
| "countClusters run (ch # rest) =
     (if ch \<in> set clusterConsonants then countClusters (Suc run) rest
      else (if run \<ge> 3 then 1 else 0) + countClusters 0 rest)"

text \<open>\<open>String.prototype.includes\<close>\<close>

fun includesStr :: "ustring \<Rightarrow> ustring \<Rightarrow> bool" where
  "includesStr [] combo = (combo = [])"
| "includesStr (ch # rest) combo =
     (take (length combo) (ch # rest) = combo \<or> includesStr rest combo)"

definition rareComboCount :: "ustring \<Rightarrow> nat" where
  "rareComboCount w = length (filter (includesStr w) rareCombinations)"

definition calculateWordDifficulty :: "ustring \<Rightarrow> jsnum" where
  "calculateWordDifficulty w =
     (let d0 = Num 0;
          d1 = jsAdd d0 (Num (min (rat_of_nat (length w) / 15) (4 / 10)));
          d2 = jsAdd d1 (jsScale (jsDiv (rat_of_nat (rareCount w)) (rat_of_nat (length w))) (3 / 10));
          d3 = jsAdd d2 (Num (rat_of_nat (countClusters 0 w) * (1 / 10)));
          d4 = jsAdd d3 (Num (rat_of_nat (rareComboCount w) * (1 / 10)))
      in jsMin d4 1)"

section \<open>Word score (WordValidator)\<close>



definition orZeroOpt :: "rat option \<Rightarrow> rat" where
  "orZeroOpt x = (case x of None \<Rightarrow> 0 | Some v \<Rightarrow> v)"






text \<open>Three words of four letters: one with the rare letter U+0407 followed by three times
  U+0410, one that starts with the consonants U+0411, U+0412, U+0413, and one without either.\<close>

definition rareWord :: ustring where
  "rareWord = [1031, 1040, 1040, 1040]"

definition clusterWord :: ustring where
  "clusterWord = [1041, 1042, 1043, 1040]"

definition plainWord :: ustring where
  "plainWord = [1040, 1040, 1040, 1040]"

section \<open>Grid validator: reports\<close>

text \<open>
  The grid argument of \<open>validateGrid\<close> is either an array of rows of cells or, as the
  check \<open>Array.isArray(grid)\<close> of \<open>validateGridStructure\<close> anticipates, not an array at
  all; \<open>GridNull\<close> is the value \<open>null\<close>. The words are a \<open>Map\<close> from id to word object,
  kept as the list of its entries in insertion order.
\<close>

datatype jsgrid = GridNull | GridArr grid

type_synonym wordMap = "(string \<times> wordData) list"

text \<open>
  The entries of \<open>errors\<close>, \<open>warnings\<close> and \<open>suggestions\<close> are Ukrainian message texts. Each
  text is one constructor, carrying the values interpolated into it (before formatting).
\<close>

datatype msg =
    GridNotArray
  | GridEmpty
  | RowLength nat
  | CellStructure nat nat
  | GridTooSmall nat nat
  | GridTooLarge nat nat
  | AspectRatio jsnum
  | LargeGrid
  | TooFewWords nat
  | ManyWords nat
  | WordStructure nat
  | WordTooShort ustring
  | WordTooLong ustring
  | ShortClue ustring
  | DuplicateWords nat
  | DuplicateNumbers nat
  | WordOutOfBounds ustring
  | WordOnBlockedCell ustring int int
  | CellLetterConflict int int ustring ustring
  | WordNotRegistered ustring int int
  | FewIntersections rat
  | IsolatedWords "ustring list"
  | NumberMismatch ustring
  | NumberedCellWithoutWords int
  | UnknownWordReference nat nat string
  | LowDensity rat
  | HighDensity rat
  | ManyBlockedCells rat
  | SeparateGroups nat
  | IsolatedCells nat
  | BalanceDirections
  | GoodSymmetry
  | AddSymmetry
  | TooSimple
  | TooHard
  | CriticalError error

record densityInfo =
  filled :: rat
  blockedRatio :: rat
  filledCells :: nat
  blockedCells :: nat
  totalCells :: nat

text \<open>
  \<open>details.quality\<close>, without the purely descriptive letter-frequency table:
  \<open>wordDistribution\<close> is (total, horizontal, vertical, ratio), \<open>symmetry\<close> is
  (horizontal, vertical), \<open>gridComplexity\<close> is its \<open>complexity\<close> (wordDifficulty, intersectionDensity,
  overallComplexity), \<open>quadrants\<close> is (topLeft, topRight, bottomLeft, bottomRight).
\<close>

record qualityInfo =
  wordDistribution :: "nat \<times> nat \<times> nat \<times> rat"
  symmetry :: "rat \<times> rat"
  gridComplexity :: "rat \<times> rat \<times> rat"
  balance :: jsnum
  centerFocus :: rat
  quadrants :: "nat \<times> nat \<times> nat \<times> nat"

text \<open>
  \<open>result.details\<close>; a field is \<open>None\<close> until the check that writes it has run.
  \<open>gridSize\<close> is (width, height, aspectRatio), \<open>duplicates\<close> is (words, numbers),
  \<open>placementErrors\<close> is (outOfBounds, overlapping), \<open>intersectionStats\<close> is (total,
  averagePerWord, isolatedWords), \<open>connectivity\<close> is (components, isolatedCells,
  largestComponent).
\<close>

record details =
  gridSize :: "(nat \<times> nat \<times> jsnum) option"
  wordsCount :: "nat option"
  duplicates :: "(nat \<times> nat) option"
  placementErrors :: "(nat \<times> nat) option"
  intersectionStats :: "(nat \<times> rat \<times> nat) option"
  integrityIssues :: "nat option"
  density :: "densityInfo option"
  connectivity :: "(nat \<times> nat \<times> nat) option"
  quality :: "qualityInfo option"

record report =
  isValid :: bool
  errors :: "msg list"
  warnings :: "msg list"
  suggestions :: "msg list"
  score :: jsnum
  details :: details

record rules =
  minGridSize :: nat
  maxGridSize :: nat
  minWordLength :: nat
  maxWordLength :: nat
  minWordsCount :: nat
  maxWordsCount :: nat
  minDensity :: rat
  maxDensity :: rat
  minIntersections :: rat
  maxIsolatedCells :: nat

definition defaultRules :: rules where
  "defaultRules = \<lparr>minGridSize = 5, maxGridSize = 25, minWordLength = 2, maxWordLength = 25,
     minWordsCount = 2, maxWordsCount = 100, minDensity = 1 / 10, maxDensity = 8 / 10,
     minIntersections = 1, maxIsolatedCells = 0\<rparr>"

text \<open>
  The validator object: its rules, the strictness of the last uncached run, its cache,
  and the host's \<open>String.prototype.localeCompare\<close>, whose order depends on the locale
  of the engine and is therefore a parameter.
\<close>

record validator =
  rules :: rules
  currentStrictness :: string
  validationCache :: "string \<rightharpoonup> report"
  localeCompare :: "string \<Rightarrow> string \<Rightarrow> int"

text \<open>How a check ends inside the \<open>try\<close> block: it completes, or it throws and leaves the
  result object as far as it had been written.\<close>

datatype outcome = Completed report | Thrown error report

fun andThen :: "outcome \<Rightarrow> (report \<Rightarrow> outcome) \<Rightarrow> outcome" where
  "andThen (Completed r) f = f r"
| "andThen (Thrown e r) f = Thrown e r"

section \<open>Grid validator: cache key\<close>

text \<open>Decimal notation of a number, as template literals and \<open>toString\<close> produce it.\<close>

function showDigits :: "int \<Rightarrow> string" where
  "showDigits i = (if i < 10 then [char_of (48 + i)]
                   else showDigits (i div 10) @ [char_of (48 + i mod 10)])"
  by pat_completeness auto
termination
  by (relation "measure nat") auto

definition showInt :: "int \<Rightarrow> string" where
  "showInt i = (if i < 0 then CHR ''-'' # showDigits (- i) else showDigits i)"

definition units :: "string \<Rightarrow> ustring" where
  "units s = map of_char s"

text \<open>
  \<open>simpleHash\<close>: \<open>hash = ((hash << 5) - hash) + char; hash = hash & hash\<close> keeps the hash a
  32-bit integer, so the arithmetic is that of 32-bit words; the result is printed as a
  signed decimal number.
\<close>

definition hashStep :: "32 word \<Rightarrow> nat \<Rightarrow> 32 word" where
  "hashStep hash ch = (push_bit 5 hash - hash) + of_nat ch"

definition simpleHash :: "ustring \<Rightarrow> string" where
  "simpleHash str = showInt (sint (foldl hashStep 0 str))"

text \<open>\<open>`${cell.letter}${cell.blocked ? 'B' : ''}${cell.number || ''}`\<close>\<close>

definition cellText :: "cell \<Rightarrow> ustring" where
  "cellText c = letter c @ (if blocked c then units ''B'' else []) @
     (case number c of None \<Rightarrow> [] | Some n \<Rightarrow> if n = 0 then [] else units (showInt n))"

definition hashGrid :: "jsgrid \<Rightarrow> error + string" where
  "hashGrid jg = (case jg of
       GridNull \<Rightarrow> Inl TypeError
     | GridArr g \<Rightarrow> Inr (simpleHash (concat (map (\<lambda>row. concat (map cellText row)) g))))"

text \<open>A stable sort by a comparison function, as \<open>Array.prototype.sort\<close> is.\<close>

fun insertBy :: "('a \<Rightarrow> 'a \<Rightarrow> int) \<Rightarrow> 'a \<Rightarrow> 'a list \<Rightarrow> 'a list" where
  "insertBy cmp x [] = [x]"
| "insertBy cmp x (y # ys) = (if cmp x y \<le> 0 then x # y # ys else y # insertBy cmp x ys)"

definition sortBy :: "('a \<Rightarrow> 'a \<Rightarrow> int) \<Rightarrow> 'a list \<Rightarrow> 'a list" where
  "sortBy cmp xs = foldr (insertBy cmp) xs []"

text \<open>\<open>`${w.word}-${w.direction}-${w.startRow}-${w.startCol}`\<close>, joined by \<open>|\<close>.\<close>

definition wordText :: "wordData \<Rightarrow> ustring" where
  "wordText w = word w @ units ''-'' @ units (direction w) @ units ''-'' @
     units (showInt (startRow w)) @ units ''-'' @ units (showInt (startCol w))"

fun joinWith :: "ustring \<Rightarrow> ustring list \<Rightarrow> ustring" where
  "joinWith sep [] = []"
| "joinWith sep [x] = x"
| "joinWith sep (x # y # ys) = x @ sep @ joinWith sep (y # ys)"

definition hashWords :: "validator \<Rightarrow> wordMap \<Rightarrow> string" where
  "hashWords v ws =
     (let wordsArray = sortBy (\<lambda>a b. localeCompare v (wid a) (wid b)) (map snd ws);
          wordsString = joinWith (units ''|'') (map wordText wordsArray)
      in simpleHash wordsString)"

definition generateCacheKey :: "validator \<Rightarrow> jsgrid \<Rightarrow> wordMap \<Rightarrow> string \<Rightarrow> error + string" where
  "generateCacheKey v jg ws strictness =
     (case hashGrid jg of
        Inl e \<Rightarrow> Inl e
      | Inr gridHash \<Rightarrow> Inr (gridHash @ ''-'' @ hashWords v ws @ ''-'' @ strictness))"

section \<open>Grid validator: the checks\<close>

definition addError :: "report \<Rightarrow> msg \<Rightarrow> report" where
  "addError r m = r\<lparr>errors := errors r @ [m]\<rparr>"

definition addWarning :: "report \<Rightarrow> msg \<Rightarrow> report" where
  "addWarning r m = r\<lparr>warnings := warnings r @ [m]\<rparr>"

text \<open>\<open>grid[0]?.length || 0\<close>\<close>

definition gridWidth :: "grid \<Rightarrow> nat" where
  "gridWidth g = (case g of [] \<Rightarrow> 0 | r0 # _ \<Rightarrow> length r0)"

text \<open>
  \<open>grid[row][col]\<close> read without a bounds check. \<open>None\<close> means that \<open>grid[row]\<close> or
  \<open>grid[row][col]\<close> is \<open>undefined\<close>; the checks read a property of the result at once,
  which then throws a TypeError.
\<close>

definition cellAt :: "grid \<Rightarrow> int \<Rightarrow> int \<Rightarrow> cell option" where
  "cellAt g row col =
     (if 0 \<le> row \<and> row < int (length g) \<and> 0 \<le> col \<and> col < int (length (g ! nat row))
      then Some (g ! nat row ! nat col) else None)"

text \<open>A number is truthy unless it is \<open>null\<close> or \<open>0\<close>.\<close>

definition truthyNumber :: "int option \<Rightarrow> bool" where
  "truthyNumber n = (case n of None \<Rightarrow> False | Some k \<Rightarrow> k \<noteq> 0)"

text \<open>
  \<open>validateGridStructure\<close>. \<open>isValidCellStructure\<close> tests the types of four fields of a
  cell; a cell of the record type passes it, so no \<open>CellStructure\<close> error arises here.
\<close>

definition validateGridStructure :: "jsgrid \<Rightarrow> report \<Rightarrow> report" where
  "validateGridStructure jg result =
     (case jg of
        GridNull \<Rightarrow> addError result GridNotArray
      | GridArr g \<Rightarrow>
          if length g = 0 then addError result GridEmpty
          else result\<lparr>errors := errors result @
                 map RowLength (filter (\<lambda>i. length (g ! i) \<noteq> gridWidth g) [1..<length g])\<rparr>)"

definition validateGridSize :: "rules \<Rightarrow> grid \<Rightarrow> report \<Rightarrow> report" where
  "validateGridSize rl g result =
     (let height = length g;
          width = gridWidth g;
          r1 = (if height < minGridSize rl \<or> width < minGridSize rl
                then addError result (GridTooSmall width height) else result);
          r2 = (if height > maxGridSize rl \<or> width > maxGridSize rl
                then addError r1 (GridTooLarge width height) else r1);
          aspectRatio = jsDiv (rat_of_nat (max width height)) (rat_of_nat (min width height));
          r3 = (if jsGt aspectRatio 2 then addWarning r2 (AspectRatio aspectRatio) else r2);
          r4 = (if width * height > 400 then addWarning r3 LargeGrid else r3)
      in r4\<lparr>details := (details r4)\<lparr>gridSize := Some (width, height, aspectRatio)\<rparr>\<rparr>)"

text \<open>
  \<open>isValidWordStructure\<close>: of its tests only the one on the direction can fail for a word
  of the record type.
\<close>

definition isValidWordStructure :: "wordData \<Rightarrow> bool" where
  "isValidWordStructure w \<longleftrightarrow> direction w \<in> set [''horizontal'', ''vertical'']"

text \<open>\<open>String.prototype.trim\<close> removes white space and line terminators at both ends.\<close>

definition jsWhitespace :: "nat list" where
  "jsWhitespace = [9, 10, 11, 12, 13, 32, 160, 5760, 8192, 8193, 8194, 8195, 8196, 8197, 8198,
     8199, 8200, 8201, 8202, 8232, 8233, 8239, 8287, 12288, 65279]"

definition jsTrim :: "ustring \<Rightarrow> ustring" where
  "jsTrim s = rev (dropWhile (\<lambda>ch. ch \<in> set jsWhitespace)
                 (rev (dropWhile (\<lambda>ch. ch \<in> set jsWhitespace) s)))"

text \<open>
  The body of the \<open>forEach\<close> of \<open>validateWords\<close>. The state is the result, the set of
  word texts and the set of numbers seen, and the two duplicate counters.
\<close>

definition validateWordStep ::
  "rules \<Rightarrow> report \<times> ustring list \<times> int list \<times> nat \<times> nat \<Rightarrow> nat \<times> wordData
     \<Rightarrow> report \<times> ustring list \<times> int list \<times> nat \<times> nat" where
  "validateWordStep rl st iw =
     (case st of (result, wordTexts, wordNumbers, duplicateWords, duplicateNumbers) \<Rightarrow>
      case iw of (index, w) \<Rightarrow>
        if \<not> isValidWordStructure w
        then (addError result (WordStructure (index + 1)), wordTexts, wordNumbers,
              duplicateWords, duplicateNumbers)
        else
          let r1 = (if length (word w) < minWordLength rl
                    then addError result (WordTooShort (word w)) else result);
              r2 = (if length (word w) > maxWordLength rl
                    then addError r1 (WordTooLong (word w)) else r1);
              dupW = (if word w \<in> set wordTexts then duplicateWords + 1 else duplicateWords);
              texts = (if word w \<in> set wordTexts then wordTexts else wordTexts @ [word w]);
              dupN = (case wnumber w of
                        None \<Rightarrow> duplicateNumbers
                      | Some n \<Rightarrow> if n \<noteq> 0 \<and> n \<in> set wordNumbers
                                  then duplicateNumbers + 1 else duplicateNumbers);
              numbers = (case wnumber w of
                        None \<Rightarrow> wordNumbers
                      | Some n \<Rightarrow> if n \<noteq> 0 \<and> n \<notin> set wordNumbers
                                  then wordNumbers @ [n] else wordNumbers);
              r3 = (if clue w = [] \<or> length (jsTrim (clue w)) < 5
                    then addWarning r2 (ShortClue (word w)) else r2)
          in (r3, texts, numbers, dupW, dupN))"

definition validateWords :: "rules \<Rightarrow> wordMap \<Rightarrow> report \<Rightarrow> report" where
  "validateWords rl ws result =
     (let wordsArray = map snd ws;
          r1 = (if length wordsArray < minWordsCount rl
                then addError result (TooFewWords (length wordsArray)) else result);
          r2 = (if length wordsArray > maxWordsCount rl
                then addWarning r1 (ManyWords (length wordsArray)) else r1)
      in case foldl (validateWordStep rl) (r2, [], [], 0, 0)
                    (zip [0..<length wordsArray] wordsArray) of
           (r3, wordTexts, wordNumbers, duplicateWords, duplicateNumbers) \<Rightarrow>
             let r4 = (if duplicateWords > 0 then addError r3 (DuplicateWords duplicateWords) else r3);
                 r5 = (if duplicateNumbers > 0
                       then addWarning r4 (DuplicateNumbers duplicateNumbers) else r4)
             in r5\<lparr>details := (details r5)\<lparr>wordsCount := Some (length wordsArray),
                      duplicates := Some (duplicateWords, duplicateNumbers)\<rparr>\<rparr>)"

text \<open>
  The inner loop of \<open>validateWordPlacements\<close> over the letters of one word; the counter is
  \<open>overlappingCount\<close>. The bounds test before it compares the column with the length
  of the first row only, so in a ragged grid the cell read can be \<open>undefined\<close>.
\<close>

fun placementLetters ::
  "grid \<Rightarrow> wordData \<Rightarrow> nat list \<Rightarrow> report \<Rightarrow> nat \<Rightarrow> (error \<times> report) + (report \<times> nat)" where
  "placementLetters g w [] r overlapping = Inr (r, overlapping)"
| "placementLetters g w (i # is) r overlapping =
     (let row = rowOf (direction w) (startRow w) i;
          col = colOf (direction w) (startCol w) i in
      case cellAt g row col of
        None \<Rightarrow> Inl (TypeError, r)
      | Some c \<Rightarrow>
          if blocked c
          then placementLetters g w is (addError r (WordOnBlockedCell (word w) row col)) overlapping
          else
            let conflict = (letter c \<noteq> [] \<and> letter c \<noteq> [word w ! i]);
                r1 = (if conflict
                      then addError r (CellLetterConflict row col [word w ! i] (letter c)) else r);
                r2 = (if wid w \<notin> set (wordIds c)
                      then addWarning r1 (WordNotRegistered (word w) row col) else r1)
            in placementLetters g w is r2 (if conflict then overlapping + 1 else overlapping))"

fun placementWords ::
  "grid \<Rightarrow> wordData list \<Rightarrow> report \<Rightarrow> nat \<Rightarrow> nat \<Rightarrow> (error \<times> report) + (report \<times> nat \<times> nat)" where
  "placementWords g [] r outOfBounds overlapping = Inr (r, outOfBounds, overlapping)"
| "placementWords g (w # ws) r outOfBounds overlapping =
     (let endRow = (if direction w = ''vertical''
                    then startRow w + int (length (word w)) - 1 else startRow w);
          endCol = (if direction w = ''horizontal''
                    then startCol w + int (length (word w)) - 1 else startCol w) in
      if startRow w < 0 \<or> startCol w < 0 \<or> endRow \<ge> int (length g) \<or> endCol \<ge> int (gridWidth g)
      then placementWords g ws (addError r (WordOutOfBounds (word w))) (outOfBounds + 1) overlapping
      else case placementLetters g w [0..<length (word w)] r overlapping of
             Inl x \<Rightarrow> Inl x
           | Inr (r', overlapping') \<Rightarrow> placementWords g ws r' outOfBounds overlapping')"

definition validateWordPlacements :: "grid \<Rightarrow> wordMap \<Rightarrow> report \<Rightarrow> outcome" where
  "validateWordPlacements g ws result =
     (case placementWords g (map snd ws) result 0 0 of
        Inl (e, r) \<Rightarrow> Thrown e r
      | Inr (r, outOfBounds, overlapping) \<Rightarrow>
          Completed (r\<lparr>details := (details r)\<lparr>placementErrors := Some (outOfBounds, overlapping)\<rparr>\<rparr>))"

text \<open>
  \<open>validateIntersections\<close> reads \<open>grid[row][col]\<close> for the letters of every word without a
  bounds test, up to the first cell with two word ids (\<open>break\<close>).
\<close>

fun hasIntersections :: "grid \<Rightarrow> wordData \<Rightarrow> nat list \<Rightarrow> error + bool" where
  "hasIntersections g w [] = Inr False"
| "hasIntersections g w (i # is) =
     (case cellAt g (rowOf (direction w) (startRow w) i) (colOf (direction w) (startCol w) i) of
        None \<Rightarrow> Inl TypeError
      | Some c \<Rightarrow> if length (wordIds c) > 1 then Inr True else hasIntersections g w is)"

fun isolatedWordsLoop :: "grid \<Rightarrow> nat \<Rightarrow> wordData list \<Rightarrow> ustring list \<Rightarrow> error + ustring list" where
  "isolatedWordsLoop g wordsSize [] isolatedWords = Inr isolatedWords"
| "isolatedWordsLoop g wordsSize (w # ws) isolatedWords =
     (case hasIntersections g w [0..<length (word w)] of
        Inl e \<Rightarrow> Inl e
      | Inr has \<Rightarrow>
          isolatedWordsLoop g wordsSize ws
            (if \<not> has \<and> wordsSize > 1 then isolatedWords @ [word w] else isolatedWords))"

definition validateIntersections :: "rules \<Rightarrow> string \<Rightarrow> grid \<Rightarrow> wordMap \<Rightarrow> report \<Rightarrow> outcome" where
  "validateIntersections rl strictness g ws result =
     (let totalIntersections = length (filter (\<lambda>c. length (wordIds c) > 1) (concat g)) in
      case isolatedWordsLoop g (length ws) (map snd ws) [] of
        Inl e \<Rightarrow> Thrown e result
      | Inr isolatedWords \<Rightarrow>
          let averagePerWord = (if length ws > 0
                then rat_of_nat totalIntersections / rat_of_nat (length ws) else 0);
              r1 = (if strictness = ''strict'' \<and> averagePerWord < minIntersections rl
                    then addWarning result (FewIntersections averagePerWord) else result);
              r2 = (if length isolatedWords > 0
                    then addWarning r1 (IsolatedWords isolatedWords) else r1)
          in Completed (r2\<lparr>details := (details r2)\<lparr>intersectionStats :=
                 Some (totalIntersections, averagePerWord, length isolatedWords)\<rparr>\<rparr>))"

text \<open>
  \<open>validateGridIntegrity\<close>. \<open>grid[word.startRow][word.startCol]\<close> throws when the row does
  not exist; when only the column does not exist the cell is \<open>undefined\<close>, and its number
  is read only if \<open>word.number\<close> is truthy.
\<close>

fun numberMismatches :: "grid \<Rightarrow> wordData list \<Rightarrow> msg list \<Rightarrow> error + msg list" where
  "numberMismatches g [] issues = Inr issues"
| "numberMismatches g (w # ws) issues =
     (if \<not> (0 \<le> startRow w \<and> startRow w < int (length g)) then Inl TypeError
      else if \<not> truthyNumber (wnumber w) then numberMismatches g ws issues
      else case cellAt g (startRow w) (startCol w) of
             None \<Rightarrow> Inl TypeError
           | Some c \<Rightarrow> numberMismatches g ws
               (if number c \<noteq> wnumber w then issues @ [NumberMismatch (word w)] else issues))"

definition unknownReferences :: "grid \<Rightarrow> wordMap \<Rightarrow> msg list" where
  "unknownReferences g ws =
     concat (map (\<lambda>rowIndex. concat (map (\<lambda>colIndex.
        map (UnknownWordReference rowIndex colIndex)
            (filter (\<lambda>wordId. wordId \<notin> set (map fst ws)) (wordIds (g ! rowIndex ! colIndex))))
        [0..<length (g ! rowIndex)])) [0..<length g])"

definition validateGridIntegrity :: "grid \<Rightarrow> wordMap \<Rightarrow> report \<Rightarrow> outcome" where
  "validateGridIntegrity g ws result =
     (let numberedCells = filter (\<lambda>c. truthyNumber (number c)) (concat g) in
      case numberMismatches g (map snd ws) [] of
        Inl e \<Rightarrow> Thrown e result
      | Inr mismatches \<Rightarrow>
          let issues = mismatches
                @ map (\<lambda>c. NumberedCellWithoutWords (the (number c)))
                      (filter (\<lambda>c. length (wordIds c) = 0) numberedCells)
                @ unknownReferences g ws;
              r1 = (if length issues > 0 then result\<lparr>warnings := warnings result @ issues\<rparr>
                    else result)
          in Completed (r1\<lparr>details := (details r1)\<lparr>integrityIssues := Some (length issues)\<rparr>\<rparr>))"

definition validateDensity :: "rules \<Rightarrow> grid \<Rightarrow> report \<Rightarrow> report" where
  "validateDensity rl g result =
     (let total = length g * gridWidth g;
          blockedN = length (filter blocked (concat g));
          filledN = length (filter (\<lambda>c. \<not> blocked c \<and> letter c \<noteq> []) (concat g));
          dens = (if total > 0 then rat_of_nat filledN / rat_of_nat total else 0);
          blockedR = (if total > 0 then rat_of_nat blockedN / rat_of_nat total else 0);
          r1 = (if dens < minDensity rl then addWarning result (LowDensity dens) else result);
          r2 = (if dens > maxDensity rl then addWarning r1 (HighDensity dens) else r1);
          r3 = (if blockedR > 3 / 10 then addWarning r2 (ManyBlockedCells blockedR) else r2)
      in r3\<lparr>details := (details r3)\<lparr>density := Some \<lparr>filled = dens, blockedRatio = blockedR,
               filledCells = filledN, blockedCells = blockedN, totalCells = total\<rparr>\<rparr>\<rparr>)"

section \<open>Grid validator: connectivity, quality and score\<close>

text \<open>
  The recursive \<open>dfs\<close> of \<open>findConnectedComponents\<close>. The state is the \<open>visited\<close> matrix
  and the component collected so far. Each nested call follows the marking of a new
  cell, so the recursion is never deeper than the number of cells plus one; the first
  argument bounds the depth, and running out of it is the engine's stack overflow.
\<close>

fun dfs :: "nat \<Rightarrow> grid \<Rightarrow> int \<Rightarrow> int \<Rightarrow> bool list list \<times> (int \<times> int) list
            \<Rightarrow> error + (bool list list \<times> (int \<times> int) list)" where
  "dfs 0 g row col st = Inl RangeError"
| "dfs (Suc depth) g row col st =
     (if row < 0 \<or> row \<ge> int (length g) \<or> col < 0 \<or> col \<ge> int (gridWidth g) then Inr st
      else case cellAt g row col of
        None \<Rightarrow> Inl TypeError
      | Some c \<Rightarrow>
          if fst st ! nat row ! nat col \<or> blocked c \<or> letter c = [] then Inr st
          else
            let visited = (fst st)[nat row := (fst st ! nat row)[nat col := True]];
                component = snd st @ [(row, col)] in
            (case dfs depth g (row - 1) col (visited, component) of
               Inl e \<Rightarrow> Inl e
             | Inr st1 \<Rightarrow>
                (case dfs depth g (row + 1) col st1 of
                   Inl e \<Rightarrow> Inl e
                 | Inr st2 \<Rightarrow>
                    (case dfs depth g row (col - 1) st2 of
                       Inl e \<Rightarrow> Inl e
                     | Inr st3 \<Rightarrow> dfs depth g row (col + 1) st3))))"

text \<open>The positions visited by \<open>for (row ...) for (col < grid[0].length ...)\<close>.\<close>

definition scanPositions :: "grid \<Rightarrow> (nat \<times> nat) list" where
  "scanPositions g = concat (map (\<lambda>row. map (\<lambda>col. (row, col)) [0..<gridWidth g]) [0..<length g])"

fun componentsLoop :: "grid \<Rightarrow> (nat \<times> nat) list \<Rightarrow> bool list list \<Rightarrow> (int \<times> int) list list
                       \<Rightarrow> error + (int \<times> int) list list" where
  "componentsLoop g [] visited components = Inr components"
| "componentsLoop g ((row, col) # ps) visited components =
     (case cellAt g (int row) (int col) of
        None \<Rightarrow> Inl TypeError
      | Some c \<Rightarrow>
          if \<not> visited ! row ! col \<and> \<not> blocked c \<and> letter c \<noteq> [] then
            (case dfs (Suc (length (concat g))) g (int row) (int col) (visited, []) of
               Inl e \<Rightarrow> Inl e
             | Inr (visited', component) \<Rightarrow>
                 componentsLoop g ps visited'
                   (if length component > 0 then components @ [component] else components))
          else componentsLoop g ps visited components)"

definition findConnectedComponents :: "grid \<Rightarrow> error + (int \<times> int) list list" where
  "findConnectedComponents g =
     componentsLoop g (scanPositions g) (map (map (\<lambda>c. False)) g) []"

text \<open>The number of isolated cells: \<open>findIsolatedCells(grid).length\<close>.\<close>

fun isolatedCellsLoop :: "grid \<Rightarrow> (nat \<times> nat) list \<Rightarrow> nat \<Rightarrow> error + nat" where
  "isolatedCellsLoop g [] n = Inr n"
| "isolatedCellsLoop g ((row, col) # ps) n =
     (case cellAt g (int row) (int col) of
        None \<Rightarrow> Inl TypeError
      | Some c \<Rightarrow> isolatedCellsLoop g ps
          (if letter c \<noteq> [] \<and> \<not> blocked c \<and> length (wordIds c) = 0 then n + 1 else n))"

definition findIsolatedCells :: "grid \<Rightarrow> error + nat" where
  "findIsolatedCells g = isolatedCellsLoop g (scanPositions g) 0"

definition validateIsolation :: "rules \<Rightarrow> grid \<Rightarrow> report \<Rightarrow> outcome" where
  "validateIsolation rl g result =
     (case findConnectedComponents g of
        Inl e \<Rightarrow> Thrown e result
      | Inr connectedComponents \<Rightarrow>
         (case findIsolatedCells g of
            Inl e \<Rightarrow> Thrown e result
          | Inr isolatedCells \<Rightarrow>
              let r1 = (if length connectedComponents > 1
                        then addWarning result (SeparateGroups (length connectedComponents))
                        else result);
                  r2 = (if isolatedCells > maxIsolatedCells rl
                        then addWarning r1 (IsolatedCells isolatedCells) else r1)
              in Completed (r2\<lparr>details := (details r2)\<lparr>connectivity :=
                   Some (length connectedComponents, isolatedCells,
                         foldr max (map length connectedComponents) 0)\<rparr>\<rparr>)))"

definition analyzeWordDistribution :: "wordMap \<Rightarrow> nat \<times> nat \<times> nat \<times> rat" where
  "analyzeWordDistribution ws =
     (let wordsArray = map snd ws;
          horizontal = length (filter (\<lambda>w. direction w = ''horizontal'') wordsArray);
          vertical = length (filter (\<lambda>w. direction w = ''vertical'') wordsArray)
      in (length wordsArray, horizontal, vertical,
          if horizontal > 0 then rat_of_nat vertical / rat_of_nat horizontal else 0))"

text \<open>
  \<open>analyzeSymmetry\<close> compares the \<open>blocked\<close> flags of mirrored cells; each comparison reads
  both cells. \<open>totalComparisons\<close> is reset before the second pair of loops, so both ratios
  are divided by the number of comparisons of the vertical mirror.
\<close>

definition mirrorPairs :: "grid \<Rightarrow> (cell option \<times> cell option) list \<times> (cell option \<times> cell option) list" where
  "mirrorPairs g =
     (let height = length g; width = gridWidth g in
      (concat (map (\<lambda>row. map (\<lambda>col.
           (cellAt g (int row) (int col), cellAt g (int height - 1 - int row) (int col)))
           [0..<width]) [0..<height div 2]),
       concat (map (\<lambda>col. map (\<lambda>row.
           (cellAt g (int row) (int col), cellAt g (int row) (int width - 1 - int col)))
           [0..<height]) [0..<width div 2])))"

definition sameBlocked :: "cell option \<times> cell option \<Rightarrow> bool" where
  "sameBlocked p = (case p of (Some a, Some b) \<Rightarrow> blocked a = blocked b | _ \<Rightarrow> False)"

definition bothDefined :: "cell option \<times> cell option \<Rightarrow> bool" where
  "bothDefined p = (fst p \<noteq> None \<and> snd p \<noteq> None)"

definition analyzeSymmetry :: "grid \<Rightarrow> error + (rat \<times> rat)" where
  "analyzeSymmetry g =
     (case mirrorPairs g of (hPairs, vPairs) \<Rightarrow>
        if \<not> (list_all bothDefined hPairs \<and> list_all bothDefined vPairs) then Inl TypeError
        else
          let horizontalSymmetry = length (filter sameBlocked hPairs);
              verticalSymmetry = length (filter sameBlocked vPairs);
              totalComparisons = length vPairs
          in Inr (if totalComparisons > 0
                  then rat_of_nat horizontalSymmetry / rat_of_nat totalComparisons else 0,
                  if totalComparisons > 0
                  then rat_of_nat verticalSymmetry / rat_of_nat totalComparisons else 0))"

text \<open>\<open>analyzeComplexity\<close>; \<open>sum / wordsArray.length || 0\<close> is \<open>0\<close> for an empty collection.\<close>

definition analyzeComplexity :: "grid \<Rightarrow> wordMap \<Rightarrow> rat \<times> rat \<times> rat" where
  "analyzeComplexity g ws =
     (let wordsArray = map snd ws;
          avgDifficulty = (if length wordsArray = 0 then 0
             else sum_list (map (\<lambda>w. orZeroOpt (difficulty w)) wordsArray)
                  / rat_of_nat (length wordsArray));
          crossings = filter (\<lambda>c. length (wordIds c) > 1) (concat g);
          intersectionComplexity = sum_list (map (\<lambda>c. length (wordIds c) - 1) crossings);
          avgIntersectionComplexity = (if length crossings > 0
             then rat_of_nat intersectionComplexity / rat_of_nat (length crossings) else 0)
      in (avgDifficulty, avgIntersectionComplexity, (avgDifficulty + avgIntersectionComplexity) / 2))"

text \<open>\<open>analyzeQuadrantDistribution\<close> and \<open>analyzeCenterFilling\<close> read every cell of the
  \<open>height\<close> by \<open>width\<close> rectangle.\<close>

definition isFilled :: "cell \<Rightarrow> bool" where
  "isFilled c \<longleftrightarrow> letter c \<noteq> [] \<and> \<not> blocked c"

definition filledAt :: "grid \<Rightarrow> nat \<times> nat \<Rightarrow> bool" where
  "filledAt g p = (case cellAt g (int (fst p)) (int (snd p)) of None \<Rightarrow> False | Some c \<Rightarrow> isFilled c)"

definition analyzeQuadrantDistribution :: "grid \<Rightarrow> error + (nat \<times> nat \<times> nat \<times> nat)" where
  "analyzeQuadrantDistribution g =
     (let midRow = length g div 2; midCol = gridWidth g div 2; ps = scanPositions g in
      if \<not> list_all (\<lambda>p. cellAt g (int (fst p)) (int (snd p)) \<noteq> None) ps then Inl TypeError
      else
        let fs = filter (filledAt g) ps in
        Inr (length (filter (\<lambda>p. fst p < midRow \<and> snd p < midCol) fs),
             length (filter (\<lambda>p. fst p < midRow \<and> snd p \<ge> midCol) fs),
             length (filter (\<lambda>p. fst p \<ge> midRow \<and> snd p < midCol) fs),
             length (filter (\<lambda>p. fst p \<ge> midRow \<and> snd p \<ge> midCol) fs)))"

definition analyzeCenterFilling :: "grid \<Rightarrow> error + rat" where
  "analyzeCenterFilling g =
     (let height = length g; width = gridWidth g;
          ps = concat (map (\<lambda>row. map (\<lambda>col. (row, col))
                 [width div 4..<(3 * width) div 4]) [height div 4..<(3 * height) div 4]) in
      if \<not> list_all (\<lambda>p. cellAt g (int (fst p)) (int (snd p)) \<noteq> None) ps then Inl TypeError
      else Inr (if length ps > 0
                then rat_of_nat (length (filter (filledAt g) ps)) / rat_of_nat (length ps) else 0))"

definition analyzeGridQuality :: "grid \<Rightarrow> wordMap \<Rightarrow> report \<Rightarrow> outcome" where
  "analyzeGridQuality g ws result =
     (case analyzeSymmetry g of
        Inl e \<Rightarrow> Thrown e result
      | Inr symRatios \<Rightarrow>
         (case analyzeQuadrantDistribution g of
            Inl e \<Rightarrow> Thrown e result
          | Inr (topLeft, topRight, bottomLeft, bottomRight) \<Rightarrow>
             (case analyzeCenterFilling g of
                Inl e \<Rightarrow> Thrown e result
              | Inr centerFilled \<Rightarrow>
                  let dist = analyzeWordDistribution ws;
                      cplx = analyzeComplexity g ws;
                      bal = \<bar>int topLeft + int bottomRight - int topRight - int bottomLeft\<bar>;
                      q = \<lparr>wordDistribution = dist, symmetry = symRatios, gridComplexity = cplx,
                           balance = jsSub (Num 1)
                             (jsDiv (rat_of_int bal) (rat_of_nat (length g * gridWidth g))),
                           centerFocus = centerFilled,
                           quadrants = (topLeft, topRight, bottomLeft, bottomRight)\<rparr>;
                      ratio = snd (snd (snd dist));
                      overall = snd (snd cplx);
                      s1 = (if \<bar>ratio - 1\<bar> > 3 / 10 then [BalanceDirections] else []);
                      s2 = (if fst symRatios > 8 / 10 \<or> snd symRatios > 8 / 10 then [GoodSymmetry]
                            else if fst symRatios < 3 / 10 \<and> snd symRatios < 3 / 10 then [AddSymmetry] else []);
                      s3 = (if overall < 3 / 10 then [TooSimple]
                            else if overall > 8 / 10 then [TooHard] else [])
                  in Completed (result\<lparr>suggestions := suggestions result @ s1 @ s2 @ s3,
                                       details := (details result)\<lparr>quality := Some q\<rparr>\<rparr>))))"

text \<open>\<open>calculateOverallScore\<close>\<close>

definition calculateOverallScore :: "rules \<Rightarrow> report \<Rightarrow> jsnum" where
  "calculateOverallScore rl result =
     (let score0 = Num 100;
          score1 = jsSub score0 (Num (rat_of_nat (length (errors result)) * 20));
          score2 = jsSub score1 (Num (rat_of_nat (length (warnings result)) * 5));
          score5 = (case quality (details result) of
             None \<Rightarrow> score2
           | Some q \<Rightarrow>
               let symmetryBonus = (fst (symmetry q) + snd (symmetry q)) * 5;
                   score3 = jsAdd score2 (Num symmetryBonus);
                   score4 = jsAdd score3 (jsScale (balance q) 10)
               in (case density (details result) of
                     None \<Rightarrow> score4
                   | Some d \<Rightarrow> if filled d < minDensity rl \<or> filled d > maxDensity rl
                               then jsSub score4 (Num 10) else score4))
      in jsMax (jsMin (jsRound score5) 100) 0)"

section \<open>Grid validator: \<open>validateGrid\<close>\<close>

definition emptyReport :: report where
  "emptyReport = \<lparr>isValid = True, errors = [], warnings = [], suggestions = [], score = Num 0,
     details = \<lparr>gridSize = None, wordsCount = None, duplicates = None, placementErrors = None,
       intersectionStats = None, integrityIssues = None, density = None, connectivity = None,
       quality = None\<rparr>\<rparr>"

text \<open>
  The body of the \<open>try\<close> block. For \<open>null\<close>, \<open>validateGridStructure\<close> records an error and
  returns, and \<open>validateGridSize\<close> then throws on \<open>grid.length\<close>.
\<close>

definition tryBlock :: "rules \<Rightarrow> string \<Rightarrow> jsgrid \<Rightarrow> wordMap \<Rightarrow> report \<Rightarrow> outcome" where
  "tryBlock rl strictness jg ws result =
     (let r1 = validateGridStructure jg result in
      case jg of
        GridNull \<Rightarrow> Thrown TypeError r1
      | GridArr g \<Rightarrow>
          andThen (andThen (andThen (andThen (andThen (andThen (andThen
            (Completed (validateWords rl ws (validateGridSize rl g r1)))
            (validateWordPlacements g ws))
            (validateIntersections rl strictness g ws))
            (validateGridIntegrity g ws))
            (\<lambda>r. Completed (validateDensity rl g r)))
            (validateIsolation rl g))
            (analyzeGridQuality g ws))
            (\<lambda>r. let r' = r\<lparr>score := calculateOverallScore rl r\<rparr>
                 in Completed (r'\<lparr>isValid := (length (errors r') = 0)\<rparr>)))"

text \<open>
  \<open>validateGrid\<close>, with the validator object threaded through. The cache key is computed
  before the \<open>try\<close> block is entered, so an exception of \<open>generateCacheKey\<close> leaves the
  function; an exception inside the block becomes a critical error of the report.
\<close>

definition validateGrid ::
  "validator \<Rightarrow> jsgrid \<Rightarrow> wordMap \<Rightarrow> string \<Rightarrow> validator \<times> (error + report)" where
  "validateGrid v jg ws strictness =
     (case generateCacheKey v jg ws strictness of
        Inl e \<Rightarrow> (v, Inl e)
      | Inr cacheKey \<Rightarrow>
         (case validationCache v cacheKey of
            Some cached \<Rightarrow> (v, Inr cached)
          | None \<Rightarrow>
              let v1 = v\<lparr>currentStrictness := strictness\<rparr>;
                  result = (case tryBlock (rules v1) (currentStrictness v1) jg ws emptyReport of
                     Completed r \<Rightarrow> r
                   | Thrown e r \<Rightarrow>
                       r\<lparr>isValid := False, errors := errors r @ [CriticalError e],
                         score := Num 0\<rparr>)
              in (v1\<lparr>validationCache := (validationCache v1)(cacheKey \<mapsto> result)\<rparr>,
                  Inr result)))"

section \<open>Grid validator: predicates and examples used in the statements\<close>

text \<open>A comparison of ids by code units, and a validator as the constructor leaves it.\<close>

fun codeUnitCompareList :: "nat list \<Rightarrow> nat list \<Rightarrow> int" where
  "codeUnitCompareList [] [] = 0"
| "codeUnitCompareList [] (y # ys) = - 1"
| "codeUnitCompareList (x # xs) [] = 1"
| "codeUnitCompareList (x # xs) (y # ys) =
     (if x < y then - 1 else if y < x then 1 else codeUnitCompareList xs ys)"

definition codeUnitCompare :: "string \<Rightarrow> string \<Rightarrow> int" where
  "codeUnitCompare a b = codeUnitCompareList (units a) (units b)"

definition newValidator :: validator where
  "newValidator = \<lparr>rules = defaultRules, currentStrictness = ''normal'',
     validationCache = Map.empty, localeCompare = codeUnitCompare\<rparr>"

text \<open>The number of cells that the \<open>visited\<close> matrix does not mark yet.\<close>

definition unvisited :: "bool list list \<Rightarrow> nat" where
  "unvisited vis = length (filter (\<lambda>b. \<not> b) (concat vis))"


text \<open>The report of a call that returned one.\<close>

definition returned :: "validator \<times> (error + report) \<Rightarrow> report option" where
  "returned x = (case snd x of Inl e \<Rightarrow> None | Inr r \<Rightarrow> Some r)"





section \<open>Placement engine: proofs\<close>

lemma emptyGrid5_created: "createEmptyGrid 5 5 = Some emptyGrid5"
  by code_simp

lemma createEmptyGrid_rectangular: "createEmptyGrid width height = Some g \<Longrightarrow> rectangular g"
  by (auto simp: createEmptyGrid_def rectangular_def list_all_iff isValidSize_def split: if_splits)


lemma scanWord_Returned:
  "scanWord g w sr sc d is res = Returned r \<Longrightarrow> rejectedEarlier (reason r) \<and> canPlace r = canPlace res"
  by (induction "is" arbitrary: res) (auto simp: Let_def split: if_splits option.splits)

lemma scanWord_Scanned:
  "scanWord g w sr sc d is res = Scanned r \<Longrightarrow> reason r = reason res \<and> canPlace r = canPlace res"
  by (induction "is" arbitrary: res) (auto simp: Let_def split: if_splits option.splits)







text \<open>
  C6. Placement atomicity. \<open>placeWord\<close> runs \<open>canPlaceWord\<close> first; whenever that check
  does not accept the word (it rejects it, or it throws), the grid that \<open>placeWord\<close>
  leaves behind is the grid it was given, cell for cell, and the call returns \<open>false\<close>
  (or lets the exception of the check through).
\<close>

theorem placeWord_rejected:
  assumes "\<not> (\<exists>res. canPlaceWord g (word wd) (startRow wd) (startCol wd) (direction wd) = Inr res
                    \<and> canPlace res)"
  shows "fst (placeWord g wd) = g \<and>
         snd (placeWord g wd) =
           (case canPlaceWord g (word wd) (startRow wd) (startCol wd) (direction wd) of
              Inl e \<Rightarrow> Inl e | Inr res \<Rightarrow> Inr False)"
  using assms by (auto simp: placeWord_def split: sum.splits)

theorem placeWord_rejected_witness:
  "canPlaceWord catGrid (word (dogWord\<lparr>startRow := 2, startCol := 2\<rparr>)) 2 2 ''horizontal'' =
     Inr \<lparr>canPlace = False,
          conflicts = [(2, 2, [67], [68]), (2, 3, [65], [79]), (2, 4, [84], [71])],
          intersections = [], reason = LetterConflict 3\<rparr> \<and>
   placeWord catGrid (dogWord\<lparr>startRow := 2, startCol := 2\<rparr>) = (catGrid, Inr False)"
proof -
  let ?wd = "dogWord\<lparr>startRow := 2, startCol := 2\<rparr>"
  have a: "canPlaceWord catGrid (word ?wd) (startRow ?wd) (startCol ?wd) (direction ?wd) =
     Inr \<lparr>canPlace = False,
          conflicts = [(2, 2, [67], [68]), (2, 3, [65], [79]), (2, 4, [84], [71])],
          intersections = [], reason = LetterConflict 3\<rparr>"
    by code_simp
  then have h: "\<not> (\<exists>res. canPlaceWord catGrid (word ?wd) (startRow ?wd) (startCol ?wd) (direction ?wd)
                       = Inr res \<and> canPlace res)"
    by auto
  have s: "startRow ?wd = 2" "startCol ?wd = 2" "direction ?wd = ''horizontal''"
    by (simp_all add: dogWord_def)
  from placeWord_rejected[OF h] a have "placeWord catGrid ?wd = (catGrid, Inr False)"
    by (simp add: prod_eq_iff)
  then show ?thesis using a s by simp
qed

subsection \<open>Placing a word and removing it again\<close>

lemma getCell_Some:
  "getCell g row col = Some c \<Longrightarrow>
     0 \<le> row \<and> 0 \<le> col \<and> nat row < length g \<and> nat col < length (g ! nat row) \<and> c = g ! nat row ! nat col"
  by (auto simp: getCell_def isValidPosition_def split: if_splits list.splits)

lemma getCell_shape:
  assumes a: "map length g' = map length g"
  shows "(getCell g' row col = None) = (getCell g row col = None)"
proof -
  have l: "length g' = length g" using a map_eq_imp_length_eq by blast
  have n: "length (g' ! r) = length (g ! r)" if "r < length g" for r
    using a l that by (metis nth_map)
  have v: "isValidPosition g' row col = isValidPosition g row col"
  proof (cases g)
    case Nil
    then show ?thesis using l by (simp add: isValidPosition_def)
  next
    case (Cons r0 rs)
    then obtain r0' rs' where g': "g' = r0' # rs'" using l by (cases g') auto
    have "length r0' = length r0" using n[of 0] Cons g' by simp
    then show ?thesis using l Cons g' by (simp add: isValidPosition_def)
  qed
  show ?thesis
  proof (cases "isValidPosition g row col")
    case True
    then have "nat row < length g" by (auto simp: isValidPosition_def)
    then have "length (g' ! nat row) = length (g ! nat row)" by (rule n)
    then show ?thesis using v True by (simp add: getCell_def)
  next
    case False
    then show ?thesis using v by (simp add: getCell_def)
  qed
qed

lemma putCell_shape: "map length (putCell g row col c) = map length g"
proof (cases "nat row < length g")
  case True
  then show ?thesis by (simp add: putCell_def map_update list_update_same_conv)
next
  case False
  then show ?thesis by (simp add: putCell_def list_update_beyond)
qed

lemma putCell_nth:
  assumes "r < length g" "c < length (g ! r)"
  shows "putCell g row col x ! r ! c = (if nat row = r \<and> nat col = c then x else g ! r ! c)"
proof (cases "nat row = r")
  case True
  then show ?thesis using assms by (simp add: putCell_def nth_list_update)
next
  case False
  then show ?thesis using assms by (simp add: putCell_def nth_list_update)
qed

lemma pos_inj:
  assumes "d \<in> set [''horizontal'', ''vertical'']" "i \<noteq> j"
  shows "rowOf d sr i \<noteq> rowOf d sr j \<or> colOf d sc i \<noteq> colOf d sc j"
  using assms by (auto simp: rowOf_def colOf_def)

lemma placeLetters_effect:
  assumes "direction wd \<in> set [''horizontal'', ''vertical'']" "distinct is"
    and "\<forall>i\<in>set is. getCell g (rowOf (direction wd) (startRow wd) i)
                              (colOf (direction wd) (startCol wd) i) \<noteq> None"
  shows "\<exists>g'. placeLetters wd is g = (g', Inr True) \<and> map length g' = map length g \<and>
           (\<forall>r<length g. \<forall>c<length (g ! r).
              g' ! r ! c =
                (case find (\<lambda>i. rowOf (direction wd) (startRow wd) i = int r \<and>
                                 colOf (direction wd) (startCol wd) i = int c) is of
                   None \<Rightarrow> g ! r ! c
                 | Some i \<Rightarrow> placeCell wd i (g ! r ! c)))"
  using assms(2,3)
proof (induction "is" arbitrary: g)
  case Nil
  then show ?case by simp
next
  case (Cons i "is")
  let ?row = "rowOf (direction wd) (startRow wd) i"
  let ?col = "colOf (direction wd) (startCol wd) i"
  from Cons.prems obtain c0 where c0: "getCell g ?row ?col = Some c0" by auto
  note pos = getCell_Some[OF c0]
  let ?g1 = "putCell g ?row ?col (placeCell wd i c0)"
  have sh: "map length ?g1 = map length g" by (rule putCell_shape)
  have ex: "\<forall>j\<in>set is. getCell ?g1 (rowOf (direction wd) (startRow wd) j)
                              (colOf (direction wd) (startCol wd) j) \<noteq> None"
    using Cons.prems getCell_shape[OF sh] by simp
  from Cons.IH[OF _ ex] Cons.prems obtain g' where
    g': "placeLetters wd is ?g1 = (g', Inr True)" "map length g' = map length ?g1"
    and eff: "\<forall>r<length ?g1. \<forall>c<length (?g1 ! r).
              g' ! r ! c =
                (case find (\<lambda>i. rowOf (direction wd) (startRow wd) i = int r \<and>
                                 colOf (direction wd) (startCol wd) i = int c) is of
                   None \<Rightarrow> ?g1 ! r ! c
                 | Some i \<Rightarrow> placeCell wd i (?g1 ! r ! c))"
    by auto
  have l1: "length ?g1 = length g" using sh map_eq_imp_length_eq by blast
  have n1: "length (?g1 ! r) = length (g ! r)" if "r < length g" for r
    using sh l1 that by (metis nth_map)
  have run: "placeLetters wd (i # is) g = (g', Inr True)"
    using c0 g'(1) by (simp add: Let_def)
  have "g' ! r ! c =
          (case find (\<lambda>i. rowOf (direction wd) (startRow wd) i = int r \<and>
                           colOf (direction wd) (startCol wd) i = int c) (i # is) of
             None \<Rightarrow> g ! r ! c
           | Some i \<Rightarrow> placeCell wd i (g ! r ! c))"
    if r: "r < length g" and c: "c < length (g ! r)" for r c
  proof (cases "?row = int r \<and> ?col = int c")
    case True
    then have nf: "find (\<lambda>j. rowOf (direction wd) (startRow wd) j = int r \<and>
                           colOf (direction wd) (startCol wd) j = int c) is = None"
    proof -
      have "\<not> (rowOf (direction wd) (startRow wd) j = int r \<and>
                colOf (direction wd) (startCol wd) j = int c)" if "j \<in> set is" for j
      proof -
        from that Cons.prems(1) have "i \<noteq> j" by auto
        from pos_inj[OF assms(1) this, of "startRow wd" "startCol wd"] True
        show ?thesis by auto
      qed
      then show ?thesis by (simp add: find_None_iff)
    qed
    have "g' ! r ! c = ?g1 ! r ! c" using eff r c l1 n1 nf by simp
    also have "\<dots> = placeCell wd i c0" using True r c by (simp add: putCell_nth)
    finally show ?thesis using True pos by simp
  next
    case False
    then have eq: "?g1 ! r ! c = g ! r ! c" using r c pos by (auto simp: putCell_nth)
    have "g' ! r ! c =
            (case find (\<lambda>i. rowOf (direction wd) (startRow wd) i = int r \<and>
                             colOf (direction wd) (startCol wd) i = int c) is of
               None \<Rightarrow> ?g1 ! r ! c
             | Some i \<Rightarrow> placeCell wd i (?g1 ! r ! c))"
      using eff r c l1 n1 by simp
    also have "\<dots> =
            (case find (\<lambda>i. rowOf (direction wd) (startRow wd) i = int r \<and>
                             colOf (direction wd) (startCol wd) i = int c) is of
               None \<Rightarrow> g ! r ! c
             | Some i \<Rightarrow> placeCell wd i (g ! r ! c))"
      by (simp only: eq)
    finally show ?thesis using False by auto
  qed
  then show ?case using run g'(2) sh by auto
qed


lemma scanWord_cells:
  "scanWord g w sr sc d is res = Scanned r \<Longrightarrow>
     canPlace r = canPlace res \<and>
     length (conflicts res) \<le> length (conflicts r) \<and>
     length (intersections res) \<le> length (intersections r) \<and>
     (\<forall>i\<in>set is. \<exists>c. getCell g (rowOf d sr i) (colOf d sc i) = Some c \<and> \<not> blocked c \<and>
        (length (conflicts r) = length (conflicts res) \<longrightarrow> letter c = [] \<or> letter c = [w ! i]) \<and>
        (length (intersections r) = length (intersections res) \<longrightarrow>
           letter c = [] \<or> letter c \<noteq> [w ! i]))"
proof (induction "is" arbitrary: res)
  case Nil
  then show ?case by simp
next
  case (Cons i "is")
  let ?row = "rowOf d sr i" and ?col = "colOf d sc i"
  from Cons.prems obtain c where c: "getCell g ?row ?col = Some c" "\<not> blocked c"
    by (auto simp: Let_def split: if_splits option.splits)
  define res2 where "res2 =
     (let res1 = (if letter c \<noteq> [] \<and> letter c \<noteq> [w ! i]
                        then res\<lparr>conflicts := conflicts res @ [(?row, ?col, letter c, [w ! i])]\<rparr>
                        else res)
      in (if letter c \<noteq> [] \<and> letter c = [w ! i]
                        then res1\<lparr>intersections := intersections res1 @ [(?row, ?col, [w ! i])]\<rparr>
                        else res1))"
  from Cons.prems c have run: "scanWord g w sr sc d is res2 = Scanned r"
    by (auto simp: Let_def res2_def split: if_splits)
  have a: "canPlace res2 = canPlace res"
          "length (conflicts res2) = length (conflicts res) + (if letter c \<noteq> [] \<and> letter c \<noteq> [w ! i] then 1 else 0)"
          "length (intersections res2) = length (intersections res) + (if letter c \<noteq> [] \<and> letter c = [w ! i] then 1 else 0)"
    by (auto simp: res2_def Let_def)
  from Cons.IH[OF run] have ih:
    "canPlace r = canPlace res2"
    "length (conflicts res2) \<le> length (conflicts r)"
    "length (intersections res2) \<le> length (intersections r)"
    "\<forall>i\<in>set is. \<exists>c. getCell g (rowOf d sr i) (colOf d sc i) = Some c \<and> \<not> blocked c \<and>
        (length (conflicts r) = length (conflicts res2) \<longrightarrow> letter c = [] \<or> letter c = [w ! i]) \<and>
        (length (intersections r) = length (intersections res2) \<longrightarrow>
           letter c = [] \<or> letter c \<noteq> [w ! i])"
    by auto
  have hd: "\<exists>c. getCell g ?row ?col = Some c \<and> \<not> blocked c \<and>
        (length (conflicts r) = length (conflicts res) \<longrightarrow> letter c = [] \<or> letter c = [w ! i]) \<and>
        (length (intersections r) = length (intersections res) \<longrightarrow>
           letter c = [] \<or> letter c \<noteq> [w ! i])"
    using c a ih(2,3) by (auto split: if_splits)
  have tl: "\<exists>c. getCell g (rowOf d sr j) (colOf d sc j) = Some c \<and> \<not> blocked c \<and>
        (length (conflicts r) = length (conflicts res) \<longrightarrow> letter c = [] \<or> letter c = [w ! j]) \<and>
        (length (intersections r) = length (intersections res) \<longrightarrow>
           letter c = [] \<or> letter c \<noteq> [w ! j])" if "j \<in> set is" for j
  proof -
    from ih(4) that obtain cj where cj: "getCell g (rowOf d sr j) (colOf d sc j) = Some cj" "\<not> blocked cj"
        "length (conflicts r) = length (conflicts res2) \<longrightarrow> letter cj = [] \<or> letter cj = [w ! j]"
        "length (intersections r) = length (intersections res2) \<longrightarrow>
           letter cj = [] \<or> letter cj \<noteq> [w ! j]"
      by blast
    have "length (conflicts r) = length (conflicts res) \<longrightarrow> length (conflicts r) = length (conflicts res2)"
      using a(2) ih(2) by (auto split: if_splits)
    moreover have "length (intersections r) = length (intersections res) \<longrightarrow> length (intersections r) = length (intersections res2)"
      using a(3) ih(3) by (auto split: if_splits)
    ultimately show ?thesis using cj by blast
  qed
  show ?case using hd tl ih(1,2,3) a by (auto split: if_splits)
qed

lemma canPlaceWord_accepted:
  assumes "canPlaceWord g w sr sc d = Inr res" "canPlace res"
  shows "2 \<le> length w \<and> d \<in> set [''horizontal'', ''vertical''] \<and>
         (\<forall>i<length w. \<exists>c. getCell g (rowOf d sr i) (colOf d sc i) = Some c \<and> \<not> blocked c \<and>
             (letter c = [] \<or> letter c = [w ! i]) \<and>
             (length (intersections res) = 0 \<longrightarrow> letter c = []))"
proof -
  let ?r0 = "\<lparr>canPlace = False, conflicts = [], intersections = [], reason = NoReason\<rparr>"
  from assms have len: "2 \<le> length w" and d: "d \<in> set [''horizontal'', ''vertical'']"
    by (auto simp: canPlaceWord_def Let_def split: if_splits)
  from assms obtain r where scan: "scanWord g w sr sc d [0..<length w] ?r0 = Scanned r"
    and r: "length (conflicts r) = 0" "res = r\<lparr>canPlace := True\<rparr>"
    by (auto simp: canPlaceWord_def Let_def split: if_splits scan.splits
             dest: scanWord_Returned scanWord_Scanned)
  have cells: "\<forall>i<length w. \<exists>c. getCell g (rowOf d sr i) (colOf d sc i) = Some c \<and> \<not> blocked c \<and>
        (conflicts r = [] \<longrightarrow> letter c = [] \<or> letter c = [w ! i]) \<and>
        (intersections r = [] \<longrightarrow> letter c = [] \<or> letter c \<noteq> [w ! i])"
    using scanWord_cells[OF scan] by simp
  have ir: "intersections res = intersections r" using r(2) by simp
  have cr: "conflicts r = []" using r(1) by simp
  have "\<exists>c. getCell g (rowOf d sr i) (colOf d sc i) = Some c \<and> \<not> blocked c \<and>
             (letter c = [] \<or> letter c = [w ! i]) \<and>
             (length (intersections res) = 0 \<longrightarrow> letter c = [])" if "i < length w" for i
  proof -
    from cells that obtain c where c: "getCell g (rowOf d sr i) (colOf d sc i) = Some c" "\<not> blocked c"
        "conflicts r = [] \<longrightarrow> letter c = [] \<or> letter c = [w ! i]"
        "intersections r = [] \<longrightarrow> letter c = [] \<or> letter c \<noteq> [w ! i]"
      by blast
    from c(3) cr have l: "letter c = [] \<or> letter c = [w ! i]" by simp
    from c(4) ir have "length (intersections res) = 0 \<longrightarrow> letter c = [] \<or> letter c \<noteq> [w ! i]" by simp
    with l c(1,2) show ?thesis by blast
  qed
  then show ?thesis using len d by blast
qed

lemma removeCell_placeCell:
  assumes "cellConsistent c" "wid wd \<notin> set (wordIds c)" "letter c = [] \<or> letter c = [word wd ! i]"
  shows "letter (removeCell (wid wd) (placeCell wd i c)) = letter c \<and>
         blocked (removeCell (wid wd) (placeCell wd i c)) = blocked c \<and>
         wordIds (removeCell (wid wd) (placeCell wd i c)) = wordIds c \<and>
         isIntersection (removeCell (wid wd) (placeCell wd i c)) = isIntersection c \<and>
         (wordIds c = [] \<longrightarrow> removeCell (wid wd) (placeCell wd i c) = c)"
proof (cases "wordIds c = []")
  case True
  then show ?thesis using assms
    by (auto simp: cellConsistent_def placeCell_def removeCell_def Let_def)
next
  case False
  then have "length (wordIds c) > 0" by simp
  then show ?thesis using assms False
    by (auto simp: cellConsistent_def placeCell_def removeCell_def Let_def remove1_append)
qed


lemma placeCell_has_id: "wid wd \<in> set (wordIds (placeCell wd i c))"
  by (simp add: placeCell_def Let_def)

lemma removeCell_unused: "wordId \<notin> set (wordIds c) \<Longrightarrow> removeCell wordId c = c"
  by (simp add: removeCell_def)

lemma shape_nth:
  assumes "map length g' = map length g"
  shows "length g' = length g" and "r < length g \<Longrightarrow> length (g' ! r) = length (g ! r)"
proof -
  show l: "length g' = length g" using assms map_eq_imp_length_eq by blast
  show "length (g' ! r) = length (g ! r)" if "r < length g"
    using assms l that by (metis nth_map)
qed

lemma grid_eqI:
  assumes "map length g' = map length g"
    and "\<And>r c. r < length g \<Longrightarrow> c < length (g ! r) \<Longrightarrow> g' ! r ! c = g ! r ! c"
  shows "g' = (g :: 'a list list)"
proof (rule nth_equalityI)
  show "length g' = length g" using shape_nth(1)[OF assms(1)] .
next
  fix r assume "r < length g'"
  then have r: "r < length g" using shape_nth(1)[OF assms(1)] by simp
  show "g' ! r = g ! r"
    by (rule nth_equalityI) (use shape_nth(2)[OF assms(1) r] assms(2)[OF r] in auto)
qed


text \<open>The cell state that the round trip relies on is the one that creation, placement
  and removal establish and keep.\<close>

lemma createEmptyGrid_consistent: "createEmptyGrid width height = Some g \<Longrightarrow> gridConsistent g"
  by (auto simp: createEmptyGrid_def gridConsistent_def cellConsistent_def createEmptyCell_def
                 list_all_iff split: if_splits)

lemma placeCell_consistent: "cellConsistent c \<Longrightarrow> cellConsistent (placeCell wd i c)"
  by (cases "wordIds c") (auto simp: cellConsistent_def placeCell_def Let_def split: if_splits)

lemma list_all_update: "list_all P xs \<Longrightarrow> P x \<Longrightarrow> list_all P (xs[i := x])"
  by (induction xs arbitrary: i) (auto split: nat.splits)

lemma putCell_consistent:
  assumes "gridConsistent g" "cellConsistent c"
  shows "gridConsistent (putCell g row col c)"
proof (cases "nat row < length g")
  case True
  have "list_all cellConsistent (g ! nat row)"
    using assms(1) True by (simp add: gridConsistent_def list_all_length)
  then have "list_all cellConsistent ((g ! nat row)[nat col := c])"
    using assms(2) by (rule list_all_update)
  then show ?thesis
    using assms(1)
      list_all_update[of "list_all cellConsistent" g "(g ! nat row)[nat col := c]" "nat row"]
    by (simp add: gridConsistent_def putCell_def)
next
  case False
  then show ?thesis using assms(1) by (simp add: putCell_def list_update_beyond)
qed

lemma placeLetters_consistent:
  "gridConsistent g \<Longrightarrow> gridConsistent (fst (placeLetters wd is g))"
proof (induction "is" arbitrary: g)
  case Nil
  then show ?case by simp
next
  case (Cons i "is")
  show ?case
  proof (cases "getCell g (rowOf (direction wd) (startRow wd) i) (colOf (direction wd) (startCol wd) i)")
    case None
    then show ?thesis using Cons.prems by (simp add: Let_def)
  next
    case (Some c)
    from getCell_Some[OF Some] have "cellConsistent c"
      using Cons.prems by (simp add: gridConsistent_def list_all_length)
    then have "gridConsistent (putCell g (rowOf (direction wd) (startRow wd) i)
                   (colOf (direction wd) (startCol wd) i) (placeCell wd i c))"
      using Cons.prems by (simp add: putCell_consistent placeCell_consistent)
    from Cons.IH[OF this] show ?thesis using Some by (simp add: Let_def)
  qed
qed

lemma placeWord_consistent: "gridConsistent g \<Longrightarrow> gridConsistent (fst (placeWord g wd))"
  by (auto simp: placeWord_def placeLetters_consistent split: sum.splits)

lemma removeCell_consistent: "cellConsistent c \<Longrightarrow> cellConsistent (removeCell wordId c)"
  by (auto simp: cellConsistent_def removeCell_def Let_def split: if_splits)

lemma removeWord_consistent: "gridConsistent g \<Longrightarrow> gridConsistent (fst (removeWord g wordId))"
  by (simp add: removeWord_def gridConsistent_def list_all_iff removeCell_consistent)


text \<open>
  C1. Round trip, as the code provides it. On a grid whose cells are in the state that
  creation, placement and removal leave them in, and in which the id of the word is not
  yet used, placing an accepted word and removing it again succeeds and keeps the shape
  of the grid; it restores \<open>letter\<close>, \<open>blocked\<close>, \<open>wordIds\<close> and \<open>isIntersection\<close> of every
  cell, restores every field of the cells that carried no word before, and restores the
  whole grid when the word crossed no existing letter. For a cell shared with an earlier
  word nothing is said of \<open>directions\<close>, \<open>number\<close>, \<open>isStart\<close> and \<open>isEnd\<close>.
\<close>

theorem place_then_remove:
  assumes cons: "gridConsistent g" and fresh: "idUnused (wid wd) g"
    and acc: "canPlaceWord g (word wd) (startRow wd) (startCol wd) (direction wd) = Inr res"
             "canPlace res"
  shows "\<exists>g1 g2. placeWord g wd = (g1, Inr True) \<and> removeWord g1 (wid wd) = (g2, True) \<and>
           map length g2 = map length g \<and>
           (\<forall>r<length g. \<forall>c<length (g ! r).
               letter (g2 ! r ! c) = letter (g ! r ! c) \<and>
               blocked (g2 ! r ! c) = blocked (g ! r ! c) \<and>
               wordIds (g2 ! r ! c) = wordIds (g ! r ! c) \<and>
               isIntersection (g2 ! r ! c) = isIntersection (g ! r ! c) \<and>
               (wordIds (g ! r ! c) = [] \<longrightarrow> g2 ! r ! c = g ! r ! c)) \<and>
           (length (intersections res) = 0 \<longrightarrow> g2 = g)"
proof -
  let ?d = "direction wd" and ?sr = "startRow wd" and ?sc = "startCol wd" and ?w = "word wd"
  let ?P = "\<lambda>r c i. rowOf ?d ?sr i = int r \<and> colOf ?d ?sc i = int c"
  from canPlaceWord_accepted[OF acc] have len: "2 \<le> length ?w"
    and d: "?d \<in> set [''horizontal'', ''vertical'']"
    and cells: "\<forall>i<length ?w. \<exists>c. getCell g (rowOf ?d ?sr i) (colOf ?d ?sc i) = Some c \<and> \<not> blocked c \<and>
             (letter c = [] \<or> letter c = [?w ! i]) \<and>
             (length (intersections res) = 0 \<longrightarrow> letter c = [])"
    by blast+
  have ex: "\<forall>i\<in>set [0..<length ?w]. getCell g (rowOf ?d ?sr i) (colOf ?d ?sc i) \<noteq> None"
    using cells by auto
  from placeLetters_effect[OF d distinct_upt ex] obtain g1 where
    g1: "placeLetters wd [0..<length ?w] g = (g1, Inr True)" and sh1: "map length g1 = map length g"
    and eff: "\<forall>r<length g. \<forall>c<length (g ! r).
              g1 ! r ! c = (case find (?P r c) [0..<length ?w] of
                   None \<Rightarrow> g ! r ! c | Some i \<Rightarrow> placeCell wd i (g ! r ! c))"
    by blast
  have pw: "placeWord g wd = (g1, Inr True)" using acc g1 by (simp add: placeWord_def)
  define g2 where "g2 = map (map (removeCell (wid wd))) g1"
  have sh2: "map length g2 = map length g" using sh1 by (simp add: g2_def comp_def)
  note l1 = shape_nth[OF sh1]
  have inv: "cellConsistent (g ! r ! c) \<and> wid wd \<notin> set (wordIds (g ! r ! c))"
    if "r < length g" "c < length (g ! r)" for r c
    using cons fresh that by (simp add: gridConsistent_def idUnused_def list_all_length)
  have g2nth: "g2 ! r ! c = removeCell (wid wd) (g1 ! r ! c)"
    if "r < length g" "c < length (g ! r)" for r c
    using that l1 by (simp add: g2_def)
  have point: "letter (g2 ! r ! c) = letter (g ! r ! c) \<and>
               blocked (g2 ! r ! c) = blocked (g ! r ! c) \<and>
               wordIds (g2 ! r ! c) = wordIds (g ! r ! c) \<and>
               isIntersection (g2 ! r ! c) = isIntersection (g ! r ! c) \<and>
               (wordIds (g ! r ! c) = [] \<longrightarrow> g2 ! r ! c = g ! r ! c) \<and>
               (length (intersections res) = 0 \<longrightarrow> g2 ! r ! c = g ! r ! c)"
    if r: "r < length g" and c: "c < length (g ! r)" for r c
  proof (cases "find (?P r c) [0..<length ?w]")
    case None
    then have "g1 ! r ! c = g ! r ! c" using eff r c by simp
    then have "g2 ! r ! c = g ! r ! c"
      using g2nth[OF r c] inv[OF r c] by (simp add: removeCell_unused)
    then show ?thesis by simp
  next
    case (Some i)
    then have i: "i < length ?w" "rowOf ?d ?sr i = int r" "colOf ?d ?sc i = int c"
      by (auto simp: find_Some_iff)
    from cells i(1) obtain c0 where c0: "getCell g (rowOf ?d ?sr i) (colOf ?d ?sc i) = Some c0"
        "letter c0 = [] \<or> letter c0 = [?w ! i]" "length (intersections res) = 0 \<longrightarrow> letter c0 = []"
      by blast
    from getCell_Some[OF c0(1)] i have c0eq: "c0 = g ! r ! c" by simp
    have g2c: "g2 ! r ! c = removeCell (wid wd) (placeCell wd i (g ! r ! c))"
      using g2nth[OF r c] eff r c Some by simp
    from inv[OF r c] have ic: "cellConsistent (g ! r ! c)" "wid wd \<notin> set (wordIds (g ! r ! c))"
      by simp_all
    have lt: "letter (g ! r ! c) = [] \<or> letter (g ! r ! c) = [?w ! i]" using c0(2) c0eq by simp
    note rt = removeCell_placeCell[OF ic lt, folded g2c]
    have "length (intersections res) = 0 \<longrightarrow> wordIds (g ! r ! c) = []"
      using c0(3) c0eq ic(1) by (auto simp: cellConsistent_def split: if_splits)
    with rt show ?thesis by blast
  qed
  have rem: "list_ex (list_ex (\<lambda>c. wid wd \<in> set (wordIds c))) g1"
  proof -
    from cells len obtain c0 where c0: "getCell g (rowOf ?d ?sr 0) (colOf ?d ?sc 0) = Some c0"
      by (metis (no_types, lifting) less_le_trans zero_less_numeral)
    let ?r = "nat (rowOf ?d ?sr 0)" and ?c = "nat (colOf ?d ?sc 0)"
    from getCell_Some[OF c0] have rc: "?r < length g" "?c < length (g ! ?r)"
      "rowOf ?d ?sr 0 = int ?r" "colOf ?d ?sc 0 = int ?c" by simp_all
    have "find (?P ?r ?c) [0..<length ?w] \<noteq> None"
      using rc(3,4) len by (auto simp: find_None_iff)
    then obtain i where "find (?P ?r ?c) [0..<length ?w] = Some i" by auto
    then have "g1 ! ?r ! ?c = placeCell wd i (g ! ?r ! ?c)" using eff rc(1,2) by simp
    then have "wid wd \<in> set (wordIds (g1 ! ?r ! ?c))" by (simp add: placeCell_has_id)
    moreover have "?r < length g1" "?c < length (g1 ! ?r)" using rc l1 by simp_all
    ultimately show ?thesis unfolding list_ex_length by blast
  qed
  have rw: "removeWord g1 (wid wd) = (g2, True)" using rem by (simp add: removeWord_def g2_def)
  have full: "g2 = g" if "length (intersections res) = 0"
    by (rule grid_eqI[OF sh2]) (use point that in blast)
  show ?thesis using pw rw sh2 point full by blast
qed


theorem place_then_remove_witness:
  "gridConsistent catGrid \<and> idUnused (wid carWord) catGrid \<and>
   canPlaceWord catGrid (word carWord) (startRow carWord) (startCol carWord) (direction carWord) =
     Inr \<lparr>canPlace = True, conflicts = [], intersections = [(2, 2, [67])], reason = NoReason\<rparr> \<and>
   (\<exists>g1 g2. placeWord catGrid carWord = (g1, Inr True) \<and> removeWord g1 (wid carWord) = (g2, True) \<and>
      wordIds (g2 ! 2 ! 2) = wordIds (catGrid ! 2 ! 2) \<and> g2 ! 3 ! 2 = catGrid ! 3 ! 2)"
proof -
  have h1: "gridConsistent catGrid" by code_simp
  have h2: "idUnused (wid carWord) catGrid" by code_simp
  have h3: "canPlaceWord catGrid (word carWord) (startRow carWord) (startCol carWord) (direction carWord) =
     Inr \<lparr>canPlace = True, conflicts = [], intersections = [(2, 2, [67])], reason = NoReason\<rparr>"
    by code_simp
  have h4: "canPlace \<lparr>canPlace = True, conflicts = [], intersections = [(2, 2, [67])], reason = NoReason\<rparr>"
    by simp
  have l: "(2::nat) < length catGrid" "(3::nat) < length catGrid"
    "(2::nat) < length (catGrid ! 2)" "(2::nat) < length (catGrid ! 3)"
    "wordIds (catGrid ! 3 ! 2) = []"
    by code_simp+
  from place_then_remove[OF h1 h2 h3 h4] obtain g1 g2 where
    g: "placeWord catGrid carWord = (g1, Inr True)" "removeWord g1 (wid carWord) = (g2, True)"
    and p: "\<forall>r<length catGrid. \<forall>c<length (catGrid ! r).
               letter (g2 ! r ! c) = letter (catGrid ! r ! c) \<and>
               blocked (g2 ! r ! c) = blocked (catGrid ! r ! c) \<and>
               wordIds (g2 ! r ! c) = wordIds (catGrid ! r ! c) \<and>
               isIntersection (g2 ! r ! c) = isIntersection (catGrid ! r ! c) \<and>
               (wordIds (catGrid ! r ! c) = [] \<longrightarrow> g2 ! r ! c = catGrid ! r ! c)"
    by blast
  from p l have "wordIds (g2 ! 2 ! 2) = wordIds (catGrid ! 2 ! 2)" "g2 ! 3 ! 2 = catGrid ! 3 ! 2"
    by blast+
  with g h1 h2 h3 show ?thesis by blast
qed

text \<open>
  Without these limits the round trip fails where the new word crosses an existing one:
  CAT is placed across from (2,2) with number 1, CAR down from (2,2) with number 2; after
  CAR is removed again the shared cell keeps the direction and the number that CAR wrote.
\<close>

theorem place_remove_not_restored:
  "snd (placeWord emptyGrid5 catWord) = Inr True \<and>
   snd (placeWord catGrid carWord) = Inr True \<and>
   directions (catGrid ! 2 ! 2) = [''horizontal''] \<and>
   directions (fst (removeWord (fst (placeWord catGrid carWord)) (wid carWord)) ! 2 ! 2)
     = [''horizontal'', ''vertical''] \<and>
   number (catGrid ! 2 ! 2) = Some 1 \<and>
   number (fst (removeWord (fst (placeWord catGrid carWord)) (wid carWord)) ! 2 ! 2) = Some 2 \<and>
   fst (removeWord (fst (placeWord catGrid carWord)) (wid carWord)) \<noteq> catGrid"
proof -
  have a: "snd (placeWord emptyGrid5 catWord) = Inr True \<and>
   snd (placeWord catGrid carWord) = Inr True \<and>
   directions (catGrid ! 2 ! 2) = [''horizontal''] \<and>
   directions (fst (removeWord (fst (placeWord catGrid carWord)) (wid carWord)) ! 2 ! 2)
     = [''horizontal'', ''vertical''] \<and>
   number (catGrid ! 2 ! 2) = Some 1 \<and>
   number (fst (removeWord (fst (placeWord catGrid carWord)) (wid carWord)) ! 2 ! 2) = Some 2"
    by code_simp
  then have "directions (fst (removeWord (fst (placeWord catGrid carWord)) (wid carWord)) ! 2 ! 2)
     \<noteq> directions (catGrid ! 2 ! 2)" by simp
  then have "fst (removeWord (fst (placeWord catGrid carWord)) (wid carWord)) \<noteq> catGrid" by auto
  with a show ?thesis by simp
qed

subsection \<open>Automatic placement\<close>

lemma autoPlaceWords_array:
  "snd (fst (autoPlaceWords g ws)) = sortByLengthDesc ws \<or>
   (\<exists>fw rest sr sc. sortByLengthDesc ws = fw # rest \<and>
      snd (fst (autoPlaceWords g ws)) = fw\<lparr>startRow := sr, startCol := sc, direction := ''horizontal''\<rparr> # rest)"
  by (auto simp: autoPlaceWords_def Let_def split: list.splits prod.splits sum.splits)


text \<open>
  C10. \<open>autoPlaceWords\<close> sorts the caller's array in place. Whatever the grid and the
  words, and however the call ends, the array the caller passed holds afterwards the
  same words in the stable order of descending length: the texts and ids are those of
  the sorted array, all entries after the first are the sorted entries unchanged (placed
  or not), and the keys are in order.
\<close>

theorem autoPlaceWords_sorts_in_place:
  "map word (snd (fst (autoPlaceWords g ws))) = map word (sortByLengthDesc ws) \<and>
   map wid (snd (fst (autoPlaceWords g ws))) = map wid (sortByLengthDesc ws) \<and>
   tl (snd (fst (autoPlaceWords g ws))) = tl (sortByLengthDesc ws) \<and>
   sorted (map (\<lambda>w. - int (length (word w))) (snd (fst (autoPlaceWords g ws)))) \<and>
   mset (map wid (snd (fst (autoPlaceWords g ws)))) = mset (map wid ws)"
proof -
  have s: "sorted (map (\<lambda>w. - int (length (word w))) (sortByLengthDesc ws))"
    by (simp add: sortByLengthDesc_def)
  have m: "mset (map wid (sortByLengthDesc ws)) = mset (map wid ws)"
    by (simp add: sortByLengthDesc_def)
  from autoPlaceWords_array[of g ws] show ?thesis
  proof
    assume "snd (fst (autoPlaceWords g ws)) = sortByLengthDesc ws"
    then show ?thesis using s m by simp
  next
    assume "\<exists>fw rest sr sc. sortByLengthDesc ws = fw # rest \<and>
      snd (fst (autoPlaceWords g ws)) = fw\<lparr>startRow := sr, startCol := sc, direction := ''horizontal''\<rparr> # rest"
    then obtain fw rest sr sc where a: "sortByLengthDesc ws = fw # rest"
      "snd (fst (autoPlaceWords g ws)) = fw\<lparr>startRow := sr, startCol := sc, direction := ''horizontal''\<rparr> # rest"
      by blast
    show ?thesis using s m unfolding a by simp
  qed
qed

section \<open>Word score and word difficulty: proofs\<close>




text \<open>
  C9. Difficulty and rare letters. For two words of the same length, the word with more
  rare letters has a difficulty that is a number and at least the other's, provided it
  has at least as many consonant clusters and at least as many of the rare combinations.
\<close>

theorem difficulty_monotone:
  assumes "length w1 = length w2" "rareCount w2 < rareCount w1"
    "countClusters 0 w2 \<le> countClusters 0 w1" "rareComboCount w2 \<le> rareComboCount w1"
  shows "\<exists>d1 d2. calculateWordDifficulty w1 = Num d1 \<and> calculateWordDifficulty w2 = Num d2 \<and> d2 \<le> d1"
proof -
  have "rareCount w1 \<le> length w1" by (simp add: rareCount_def)
  with assms(2) have pos: "0 < length w1" by linarith
  then have pos2: "0 < length w2" using assms(1) by simp
  let ?n = "rat_of_nat (length w1)"
  have n: "0 < ?n" using pos by simp
  have r: "rat_of_nat (rareCount w2) / ?n \<le> rat_of_nat (rareCount w1) / ?n"
    using assms(2) n by (simp add: divide_right_mono)
  have c: "rat_of_nat (countClusters 0 w2) \<le> rat_of_nat (countClusters 0 w1)"
       "rat_of_nat (rareComboCount w2) \<le> rat_of_nat (rareComboCount w1)"
    using assms(3,4) by simp_all
  define s where "s w = min (rat_of_nat (length w) / 15) (4 / 10)
      + rat_of_nat (rareCount w) / rat_of_nat (length w) * (3 / 10)
      + rat_of_nat (countClusters 0 w) * (1 / 10) + rat_of_nat (rareComboCount w) * (1 / 10)" for w
  have d: "calculateWordDifficulty w = Num (min (s w) 1)" if "0 < length w" for w
    using that by (simp add: calculateWordDifficulty_def Let_def jsDiv_def s_def)
  have "s w2 \<le> s w1" unfolding s_def using r c assms(1) by (simp add: add_mono)
  then have "min (s w2) 1 \<le> min (s w1) 1" by (simp add: min_le_iff_disj)
  then show ?thesis using d[OF pos] d[OF pos2] by blast
qed


theorem difficulty_monotone_witness:
  "length rareWord = length plainWord \<and> rareCount plainWord < rareCount rareWord \<and>
   countClusters 0 plainWord \<le> countClusters 0 rareWord \<and>
   rareComboCount plainWord \<le> rareComboCount rareWord \<and>
   (\<exists>d1 d2. calculateWordDifficulty rareWord = Num d1 \<and>
            calculateWordDifficulty plainWord = Num d2 \<and> d2 \<le> d1)"
proof -
  have h: "length rareWord = length plainWord" "rareCount plainWord < rareCount rareWord"
    "countClusters 0 plainWord \<le> countClusters 0 rareWord"
    "rareComboCount plainWord \<le> rareComboCount rareWord"
    by code_simp+
  from difficulty_monotone[OF h] h show ?thesis by blast
qed

text \<open>
  Without the proviso the order can be the other way round: \<open>rareWord\<close> has one rare letter
  and \<open>clusterWord\<close> none, yet the cluster of three consonants makes the second word the more
  difficult one.
\<close>

theorem difficulty_not_monotone:
  "length rareWord = length clusterWord \<and> rareCount clusterWord < rareCount rareWord \<and>
   calculateWordDifficulty rareWord = Num (41 / 120) \<and>
   calculateWordDifficulty clusterWord = Num (11 / 30) \<and> (41 / 120 :: rat) < 11 / 30"
  by code_simp

section \<open>Grid validator: proofs\<close>

subsection \<open>The depth of the flood fill\<close>

text \<open>The depth bound handed to \<open>dfs\<close> is never exhausted: every nested call follows the
  marking of a cell that was not marked before.\<close>

lemma mark_row:
  "c < length xs \<Longrightarrow> \<not> xs ! c \<Longrightarrow>
     Suc (length (filter (\<lambda>b. \<not> b) (xs[c := True]))) = length (filter (\<lambda>b. \<not> b) xs)"
  by (induction xs arbitrary: c) (auto split: nat.splits)

lemma mark_cell:
  "r < length vis \<Longrightarrow> c < length (vis ! r) \<Longrightarrow> \<not> vis ! r ! c \<Longrightarrow>
     Suc (unvisited (vis[r := (vis ! r)[c := True]])) = unvisited vis"
proof (induction vis arbitrary: r)
  case Nil
  then show ?case by simp
next
  case (Cons xs vis)
  show ?case
  proof (cases r)
    case 0
    then show ?thesis using Cons.prems mark_row[of c xs] by (simp add: unvisited_def)
  next
    case (Suc r')
    then show ?thesis using Cons.prems Cons.IH[of r'] by (simp add: unvisited_def)
  qed
qed

lemma mark_shape:
  "map length (vis[r := (vis ! r)[c := True]]) = map length vis"
  by (cases "r < length vis") (simp_all add: map_update list_update_same_conv list_update_beyond)

lemma cellAt_Some:
  "cellAt g row col = Some c \<Longrightarrow>
     0 \<le> row \<and> 0 \<le> col \<and> nat row < length g \<and> nat col < length (g ! nat row)"
  by (auto simp: cellAt_def split: if_splits)

lemma dfs_depth:
  assumes "map length vis = map length g" "unvisited vis < d"
  shows "dfs d g row col (vis, acc) \<noteq> Inl RangeError \<and>
         (\<forall>vis' acc'. dfs d g row col (vis, acc) = Inr (vis', acc') \<longrightarrow>
             map length vis' = map length g \<and> unvisited vis' \<le> unvisited vis)"
  using assms
proof (induction d arbitrary: row col vis acc)
  case 0
  then show ?case by simp
next
  case (Suc d)
  let ?stop = "row < 0 \<or> row \<ge> int (length g) \<or> col < 0 \<or> col \<ge> int (gridWidth g)"
  show ?case
  proof (cases ?stop)
    case True
    then show ?thesis using Suc.prems by simp
  next
    case inside: False
    show ?thesis
    proof (cases "cellAt g row col")
      case None
      then show ?thesis using inside by simp
    next
      case (Some c)
      show ?thesis
      proof (cases "vis ! nat row ! nat col \<or> blocked c \<or> letter c = []")
        case True
        then show ?thesis using inside Some Suc.prems by auto
      next
        case fresh: False
        define vis1 where "vis1 = vis[nat row := (vis ! nat row)[nat col := True]]"
        define comp1 where "comp1 = acc @ [(row, col)]"
        have run: "dfs (Suc d) g row col (vis, acc) =
          (case dfs d g (row - 1) col (vis1, comp1) of
               Inl e \<Rightarrow> Inl e
             | Inr st1 \<Rightarrow>
                (case dfs d g (row + 1) col st1 of
                   Inl e \<Rightarrow> Inl e
                 | Inr st2 \<Rightarrow>
                    (case dfs d g row (col - 1) st2 of
                       Inl e \<Rightarrow> Inl e
                     | Inr st3 \<Rightarrow> dfs d g row (col + 1) st3)))"
          using inside Some fresh by (simp add: Let_def vis1_def comp1_def)
        from cellAt_Some[OF Some] have rc: "nat row < length g" "nat col < length (g ! nat row)"
          by simp_all
        have lv: "length vis = length g" using Suc.prems(1) map_eq_imp_length_eq by blast
        have "length (vis ! nat row) = length (g ! nat row)"
          using Suc.prems(1) rc(1) lv by (metis nth_map)
        then have m: "Suc (unvisited vis1) = unvisited vis"
          unfolding vis1_def using mark_cell[of "nat row" vis "nat col"] rc lv fresh by simp
        have s1: "map length vis1 = map length g"
          unfolding vis1_def using Suc.prems(1) by (simp add: mark_shape)
        have u1: "unvisited vis1 < d" using m Suc.prems(2) by simp
        note ih = Suc.IH
        show ?thesis
        proof (cases "dfs d g (row - 1) col (vis1, comp1)")
          case (Inl e)
          then show ?thesis using run ih[OF s1 u1, of "row - 1" col comp1] by simp
        next
          case (Inr st1)
          obtain vis2 comp2 where st1: "st1 = (vis2, comp2)" by (cases st1)
          from ih[OF s1 u1, of "row - 1" col comp1] Inr st1
          have s2: "map length vis2 = map length g" and u2: "unvisited vis2 \<le> unvisited vis1"
            by simp_all
          have u2': "unvisited vis2 < d" using u1 u2 by simp
          show ?thesis
          proof (cases "dfs d g (row + 1) col (vis2, comp2)")
            case (Inl e)
            then show ?thesis using run Inr st1 ih[OF s2 u2', of "row + 1" col comp2] by simp
          next
            case r2: (Inr st2)
            obtain vis3 comp3 where st2: "st2 = (vis3, comp3)" by (cases st2)
            from ih[OF s2 u2', of "row + 1" col comp2] r2 st2
            have s3: "map length vis3 = map length g" and u3: "unvisited vis3 \<le> unvisited vis2"
              by simp_all
            have u3': "unvisited vis3 < d" using u2' u3 by simp
            show ?thesis
            proof (cases "dfs d g row (col - 1) (vis3, comp3)")
              case (Inl e)
              then show ?thesis
                using run Inr st1 r2 st2 ih[OF s3 u3', of row "col - 1" comp3] by simp
            next
              case r3: (Inr st3)
              obtain vis4 comp4 where st3: "st3 = (vis4, comp4)" by (cases st3)
              from ih[OF s3 u3', of row "col - 1" comp3] r3 st3
              have s4: "map length vis4 = map length g" and u4: "unvisited vis4 \<le> unvisited vis3"
                by simp_all
              have u4': "unvisited vis4 < d" using u3' u4 by simp
              have eq: "dfs (Suc d) g row col (vis, acc) = dfs d g row (col + 1) (vis4, comp4)"
                using run Inr st1 r2 st2 r3 st3 by simp
              from ih[OF s4 u4', of row "col + 1" comp4]
              have "dfs d g row (col + 1) (vis4, comp4) \<noteq> Inl RangeError"
                and "\<forall>vis' acc'. dfs d g row (col + 1) (vis4, comp4) = Inr (vis', acc') \<longrightarrow>
                       map length vis' = map length g \<and> unvisited vis' \<le> unvisited vis4"
                by simp_all
              then show ?thesis unfolding eq using u4 u3 u2 m by auto
            qed
          qed
        qed
      qed
    qed
  qed
qed

lemma unvisited_le: "unvisited vis \<le> length (concat vis)"
  by (simp add: unvisited_def)

lemma concat_shape: "map length a = map length b \<Longrightarrow> length (concat a) = length (concat b)"
  by (simp add: length_concat)

lemma componentsLoop_no_overflow:
  "map length vis = map length g \<Longrightarrow> componentsLoop g ps vis comps \<noteq> Inl RangeError"
proof (induction ps arbitrary: vis comps)
  case Nil
  then show ?case by simp
next
  case (Cons p ps)
  obtain row col where p: "p = (row, col)" by (cases p)
  have u: "unvisited vis < Suc (length (concat g))"
    using unvisited_le[of vis] concat_shape[OF Cons.prems] by simp
  show ?case
  proof (cases "cellAt g (int row) (int col)")
    case None
    then show ?thesis using p by simp
  next
    case (Some c)
    show ?thesis
    proof (cases "\<not> vis ! row ! col \<and> \<not> blocked c \<and> letter c \<noteq> []")
      case False
      then show ?thesis using p Some Cons.IH[OF Cons.prems] by auto
    next
      case True
      show ?thesis
      proof (cases "dfs (Suc (length (concat g))) g (int row) (int col) (vis, [])")
        case (Inl e)
        then show ?thesis
          using p Some True dfs_depth[OF Cons.prems u, of "int row" "int col" "[]"] by auto
      next
        case (Inr st)
        obtain vis' acc' where st: "st = (vis', acc')" by (cases st)
        from dfs_depth[OF Cons.prems u, of "int row" "int col" "[]"] Inr st
        have "map length vis' = map length g" by simp
        from Cons.IH[OF this] show ?thesis using p Some True Inr st by auto
      qed
    qed
  qed
qed

lemma findConnectedComponents_no_overflow: "findConnectedComponents g \<noteq> Inl RangeError"
  unfolding findConnectedComponents_def
  by (rule componentsLoop_no_overflow) (simp add: comp_def)


subsection \<open>Cache and exceptions\<close>

lemma hashWords_locale:
  "localeCompare v' = localeCompare v \<Longrightarrow> hashWords v' ws = hashWords v ws"
  by (simp add: hashWords_def)

lemma generateCacheKey_locale:
  "localeCompare v' = localeCompare v \<Longrightarrow> generateCacheKey v' jg ws s = generateCacheKey v jg ws s"
  using hashWords_locale[of v' v ws] by (simp add: generateCacheKey_def split: sum.splits)

lemma generateCacheKey_array:
  "\<exists>key. generateCacheKey v (GridArr g) ws s = Inr key"
  by (simp add: generateCacheKey_def hashGrid_def)


lemma validateGrid_cache_hit:
  "generateCacheKey v jg ws s = Inr key \<Longrightarrow> validationCache v key = Some r \<Longrightarrow>
     validateGrid v jg ws s = (v, Inr r)"
  by (simp add: validateGrid_def)

lemma validateGrid_stores:
  "\<exists>v' r key. validateGrid v (GridArr g) ws s = (v', Inr r) \<and>
      generateCacheKey v (GridArr g) ws s = Inr key \<and>
      localeCompare v' = localeCompare v \<and> validationCache v' key = Some r"
proof -
  obtain key where key: "generateCacheKey v (GridArr g) ws s = Inr key"
    using generateCacheKey_array by blast
  show ?thesis
  proof (cases "validationCache v key")
    case (Some cached)
    then show ?thesis using key validateGrid_cache_hit[OF key Some] by blast
  next
    case None
    define result where "result =
       (case tryBlock (rules v) s (GridArr g) ws emptyReport of
          Completed r \<Rightarrow> r
        | Thrown e r \<Rightarrow> r\<lparr>isValid := False, errors := errors r @ [CriticalError e], score := Num 0\<rparr>)"
    define v' where "v' = v\<lparr>currentStrictness := s,
                            validationCache := (validationCache v)(key \<mapsto> result)\<rparr>"
    have "validateGrid v (GridArr g) ws s = (v', Inr result)"
      using key None by (simp add: validateGrid_def Let_def result_def v'_def)
    moreover have "localeCompare v' = localeCompare v" "validationCache v' key = Some result"
      by (simp_all add: v'_def)
    ultimately show ?thesis using key by blast
  qed
qed

text \<open>
  C4. Idempotent cached validation. For every validator state, array grid, word
  collection and strictness, \<open>validateGrid\<close> returns a report and leaves a state in
  which that report is stored under the cache key; a second call with the same
  arguments computes the same key, finds the entry, and returns the same report while
  leaving the validator as it was, without running the checks again.
\<close>

theorem validateGrid_second_call:
  "\<exists>v' r key. validateGrid v (GridArr g) ws s = (v', Inr r) \<and>
      generateCacheKey v (GridArr g) ws s = Inr key \<and>
      generateCacheKey v' (GridArr g) ws s = Inr key \<and>
      validationCache v' key = Some r \<and>
      validateGrid v' (GridArr g) ws s = (v', Inr r)"
proof -
  from validateGrid_stores[of v g ws s] obtain v' r key where
    a: "validateGrid v (GridArr g) ws s = (v', Inr r)"
       "generateCacheKey v (GridArr g) ws s = Inr key"
       "localeCompare v' = localeCompare v" "validationCache v' key = Some r"
    by blast
  have k': "generateCacheKey v' (GridArr g) ws s = Inr key"
    using a(2) generateCacheKey_locale[OF a(3)] by simp
  from validateGrid_cache_hit[OF k' a(4)] a k' show ?thesis by blast
qed

text \<open>
  C2. \<open>validateGrid\<close> and exceptions. For a grid that is an array the function always
  returns a report, because every exception of the checks is caught. For \<open>null\<close> the
  exception is thrown by \<open>hashGrid\<close>, which runs before the \<open>try\<close> block, and reaches the
  caller; the validator is left as it was.
\<close>

theorem validateGrid_null_throws:
  "validateGrid v GridNull ws s = (v, Inl TypeError) \<and>
   (\<exists>v' r. validateGrid v (GridArr g) ws s = (v', Inr r))"
proof -
  have "validateGrid v GridNull ws s = (v, Inl TypeError)"
    by (simp add: validateGrid_def generateCacheKey_def hashGrid_def)
  moreover have "\<exists>v' r. validateGrid v (GridArr g) ws s = (v', Inr r)"
    using validateGrid_stores[of v g ws s] by blast
  ultimately show ?thesis by blast
qed

text \<open>An exception inside the \<open>try\<close> block: the word lies outside the grid, which
  \<open>validateWordPlacements\<close> reports and \<open>validateIntersections\<close> does not survive.\<close>

lemma validateGrid_catches_example:
  "map_option (\<lambda>r. (isValid r, errors r, score r))
     (returned (validateGrid newValidator (GridArr catGrid)
        [(''cat'', catWord\<lparr>startRow := 7\<rparr>)] ''normal''))
   = Some (False, [TooFewWords 1, WordOutOfBounds [67, 65, 84], CriticalError TypeError], Num 0)"
  by code_simp










subsection \<open>The score\<close>







end
